theory Spec2Isabelle
  imports Complex_Main "HOL-Library.Sublist" "HOL-Library.Multiset" "HOL-Library.Log_Nat"
begin

section \<open>Python strings\<close>

text \<open>
  A Python \<open>str\<close> is a sequence of Unicode code points and \<open>len\<close> counts code points,
  so a string is modelled as the list of its code points. \<open>str\<close> turns an ASCII literal
  into that representation; text in Devanagari is written as its code points.
\<close>

type_synonym pystr = "nat list"

definition str :: "string \<Rightarrow> pystr" where
  "str s = map of_char s"

text \<open>The decimal rendering of a non-negative integer, as an f-string produces it.\<close>

fun digits :: "nat \<Rightarrow> pystr" where
  "digits n = (if n < 10 then [48 + n] else digits (n div 10) @ [48 + n mod 10])"

declare digits.simps [simp del]

definition str_of_int :: "int \<Rightarrow> pystr" where
  "str_of_int i = (if i < 0 then 45 # digits (nat (- i)) else digits (nat i))"

text \<open>\<open>str.isascii\<close>.\<close>

definition isascii :: "pystr \<Rightarrow> bool" where
  "isascii s = list_all (\<lambda>c. c < 128) s"

text \<open>
  \<open>str.isspace\<close> on one code point: the characters that \<open>strip()\<close> and \<open>split()\<close>
  without arguments treat as whitespace.
\<close>

definition isspace :: "nat \<Rightarrow> bool" where
  "isspace c \<longleftrightarrow>
     (9 \<le> c \<and> c \<le> 13) \<or> (28 \<le> c \<and> c \<le> 32) \<or> c = 133 \<or> c = 160 \<or> c = 5760 \<or>
     (8192 \<le> c \<and> c \<le> 8202) \<or> c = 8232 \<or> c = 8233 \<or> c = 8239 \<or> c = 8287 \<or> c = 12288"

definition strip :: "pystr \<Rightarrow> pystr" where
  "strip s = rev (dropWhile isspace (rev (dropWhile isspace s)))"

text \<open>\<open>s.split()\<close>: the maximal runs of non-whitespace; \<open>cur\<close> is the run being read.\<close>

fun split_from :: "pystr \<Rightarrow> pystr \<Rightarrow> pystr list" where
  "split_from cur [] = (if cur = [] then [] else [cur])"
| "split_from cur (c # cs) =
     (if isspace c then (if cur = [] then split_from [] cs else cur # split_from [] cs)
      else split_from (cur @ [c]) cs)"

definition split :: "pystr \<Rightarrow> pystr list" where
  "split s = split_from [] s"

fun join :: "pystr \<Rightarrow> pystr list \<Rightarrow> pystr" where
  "join sep [] = []"
| "join sep [w] = w"
| "join sep (w # ws) = w @ sep @ join sep ws"

text \<open>\<open>' '.join(s.split())\<close>, the whitespace collapse used by both sanitizing stages.\<close>

definition collapse_spaces :: "pystr \<Rightarrow> pystr" where
  "collapse_spaces s = join [32] (split s)"

text \<open>\<open>sub in s\<close> on strings.\<close>

fun contains :: "pystr \<Rightarrow> pystr \<Rightarrow> bool" where
  "contains sub [] = (sub = [])"
| "contains sub (c # cs) = (prefix sub (c # cs) \<or> contains sub cs)"

text \<open>
  \<open>s.replace(old, new)\<close>: every non-overlapping occurrence, leftmost first. With an empty
  \<open>old\<close> Python inserts \<open>new\<close> before every character and at the end.
\<close>

function replace_scan :: "pystr \<Rightarrow> pystr \<Rightarrow> pystr \<Rightarrow> pystr" where
  "replace_scan old new [] = []"
| "replace_scan old new (c # cs) =
     (if old \<noteq> [] \<and> prefix old (c # cs)
      then new @ replace_scan old new (drop (length old) (c # cs))
      else c # replace_scan old new cs)"
  by pat_completeness auto
termination
  by (relation "measure (\<lambda>(old, new, s). length s)") (auto simp: neq_Nil_conv)

definition replace :: "pystr \<Rightarrow> pystr \<Rightarrow> pystr \<Rightarrow> pystr" where
  "replace old new s =
     (if old = [] then new @ concat (map (\<lambda>c. c # new) s) else replace_scan old new s)"

section \<open>Library behaviour taken as a parameter\<close>

text \<open>
  The case mappings of \<open>str\<close>, the character classes \<open>\d\<close> and \<open>\w\<close> and the
  case-insensitive comparison of the \<open>re\<close> module are tables of the Python runtime, and
  \<open>re.sub\<close> expands the escapes of its replacement string (or raises on a bad one).
  The functions below take all of these as a parameter, so every theorem holds for any
  such table. \<open>basic_latin\<close> is the table restricted to the Basic Latin block, for
  evaluating the functions on ASCII input and on replacement strings without a backslash.
\<close>

datatype py_error =
    KeyError pystr
  | TypeError pystr
  | ReError pystr
  | ModelError pystr
  | HTTPException nat pystr

record pylib =
  u_lower :: "pystr \<Rightarrow> pystr"
  u_upper :: "pystr \<Rightarrow> pystr"
  u_capitalize :: "pystr \<Rightarrow> pystr"
  u_title :: "pystr \<Rightarrow> pystr"
  re_digit :: "nat \<Rightarrow> bool"
  re_word :: "nat \<Rightarrow> bool"
  re_ci_eq :: "nat \<Rightarrow> nat \<Rightarrow> bool"
  re_template :: "pystr \<Rightarrow> py_error + pystr"

definition is_ascii_upper :: "nat \<Rightarrow> bool" where
  "is_ascii_upper c \<longleftrightarrow> 65 \<le> c \<and> c \<le> 90"

definition is_ascii_lower :: "nat \<Rightarrow> bool" where
  "is_ascii_lower c \<longleftrightarrow> 97 \<le> c \<and> c \<le> 122"

definition is_ascii_letter :: "nat \<Rightarrow> bool" where
  "is_ascii_letter c \<longleftrightarrow> is_ascii_upper c \<or> is_ascii_lower c"

definition is_ascii_digit :: "nat \<Rightarrow> bool" where
  "is_ascii_digit c \<longleftrightarrow> 48 \<le> c \<and> c \<le> 57"

definition ascii_lower :: "nat \<Rightarrow> nat" where
  "ascii_lower c = (if is_ascii_upper c then c + 32 else c)"

definition ascii_upper :: "nat \<Rightarrow> nat" where
  "ascii_upper c = (if is_ascii_lower c then c - 32 else c)"

text \<open>\<open>prev\<close> tells whether the previous character was a cased letter.\<close>

fun ascii_title :: "bool \<Rightarrow> pystr \<Rightarrow> pystr" where
  "ascii_title prev [] = []"
| "ascii_title prev (c # cs) =
     (if prev then ascii_lower c else ascii_upper c) # ascii_title (is_ascii_letter c) cs"

definition basic_latin :: pylib where
  "basic_latin =
     \<lparr>u_lower = map ascii_lower,
      u_upper = map ascii_upper,
      u_capitalize = (\<lambda>s. case s of [] \<Rightarrow> [] | c # cs \<Rightarrow> ascii_upper c # map ascii_lower cs),
      u_title = ascii_title False,
      re_digit = is_ascii_digit,
      re_word = (\<lambda>c. is_ascii_letter c \<or> is_ascii_digit c \<or> c = 95),
      re_ci_eq = (\<lambda>p c. ascii_lower p = ascii_lower c),
      re_template = (\<lambda>t. if 92 \<in> set t then Inl (ReError (str ''bad escape'')) else Inr t)\<rparr>"

section \<open>Regular expressions\<close>

text \<open>
  The patterns of the source use literals, character classes, greedy and lazy repetition
  of a class, an optional group, alternation and \<open>\b\<close>. \<open>run\<close> is the backtracking
  matcher of \<open>re\<close> on that fragment: from a position (the previous character, for
  \<open>\b\<close>, and the rest of the text) it lists the positions where a match can end, in the
  order in which backtracking tries them.
\<close>

datatype regex =
    Lit pystr
  | LitIgnoreCase pystr
  | Cls "nat \<Rightarrow> bool"
  | Star "nat \<Rightarrow> bool"
  | LazyStar "nat \<Rightarrow> bool"
  | Opt regex
  | Alt regex regex
  | Seq regex regex
  | WordBoundary

type_synonym pos = "nat option \<times> pystr"

fun lit_match :: "(nat \<Rightarrow> nat \<Rightarrow> bool) \<Rightarrow> pystr \<Rightarrow> pos \<Rightarrow> pos list" where
  "lit_match eq [] st = [st]"
| "lit_match eq (p # ps) (prev, []) = []"
| "lit_match eq (p # ps) (prev, c # cs) =
     (if eq p c then lit_match eq ps (Some c, cs) else [])"

fun star_greedy :: "(nat \<Rightarrow> bool) \<Rightarrow> pos \<Rightarrow> pos list" where
  "star_greedy P (prev, []) = [(prev, [])]"
| "star_greedy P (prev, c # cs) =
     (if P c then star_greedy P (Some c, cs) @ [(prev, c # cs)] else [(prev, c # cs)])"

fun star_lazy :: "(nat \<Rightarrow> bool) \<Rightarrow> pos \<Rightarrow> pos list" where
  "star_lazy P (prev, []) = [(prev, [])]"
| "star_lazy P (prev, c # cs) =
     (prev, c # cs) # (if P c then star_lazy P (Some c, cs) else [])"

text \<open>\<open>\b\<close>: exactly one of the two neighbours is a word character.\<close>

definition at_boundary :: "pylib \<Rightarrow> pos \<Rightarrow> bool" where
  "at_boundary U st =
     (case st of (prev, s) \<Rightarrow>
        (case prev of None \<Rightarrow> False | Some c \<Rightarrow> re_word U c) \<noteq>
        (case s of [] \<Rightarrow> False | c # cs \<Rightarrow> re_word U c))"

fun run :: "pylib \<Rightarrow> regex \<Rightarrow> pos \<Rightarrow> pos list" where
  "run U (Lit l) st = lit_match (=) l st"
| "run U (LitIgnoreCase l) st = lit_match (re_ci_eq U) l st"
| "run U (Cls P) (prev, s) = (case s of [] \<Rightarrow> [] | c # cs \<Rightarrow> if P c then [(Some c, cs)] else [])"
| "run U (Star P) st = star_greedy P st"
| "run U (LazyStar P) st = star_lazy P st"
| "run U (Opt r) st = run U r st @ [st]"
| "run U (Alt a b) st = run U a st @ run U b st"
| "run U (Seq a b) st = concat (map (run U b) (run U a st))"
| "run U WordBoundary st = (if at_boundary U st then [st] else [])"

fun seq :: "regex list \<Rightarrow> regex" where
  "seq [] = Lit []"
| "seq [r] = r"
| "seq (r # rs) = Seq r (seq rs)"

text \<open>
  \<open>re.sub\<close> and \<open>re.findall\<close>: the leftmost match first, then on from its end. After an
  empty match the search goes on from the same place for a non-empty one, and otherwise
  moves one character ahead.
\<close>

function re_sub_from :: "pylib \<Rightarrow> regex \<Rightarrow> pystr \<Rightarrow> pos \<Rightarrow> pystr" where
  "re_sub_from U r repl (prev, s) =
     (case run U r (prev, s) of
        [] \<Rightarrow> (case s of [] \<Rightarrow> [] | c # cs \<Rightarrow> c # re_sub_from U r repl (Some c, cs))
      | (p, rest) # others \<Rightarrow>
          if length rest < length s then repl @ re_sub_from U r repl (p, rest)
          else repl @
            (case find (\<lambda>(p', rest'). length rest' < length s) others of
               Some (p', rest') \<Rightarrow> repl @ re_sub_from U r repl (p', rest')
             | None \<Rightarrow> (case s of [] \<Rightarrow> [] | c # cs \<Rightarrow> c # re_sub_from U r repl (Some c, cs))))"
  by pat_completeness auto
termination
  by (relation "measure (\<lambda>(U, r, repl, prev, s). length s)") (auto simp: find_Some_iff)

definition re_sub :: "pylib \<Rightarrow> regex \<Rightarrow> pystr \<Rightarrow> pystr \<Rightarrow> pystr" where
  "re_sub U r repl s = re_sub_from U r repl (None, s)"

function re_findall_from :: "pylib \<Rightarrow> regex \<Rightarrow> pos \<Rightarrow> pystr list" where
  "re_findall_from U r (prev, s) =
     (case run U r (prev, s) of
        [] \<Rightarrow> (case s of [] \<Rightarrow> [] | c # cs \<Rightarrow> re_findall_from U r (Some c, cs))
      | (p, rest) # others \<Rightarrow>
          if length rest < length s
          then take (length s - length rest) s # re_findall_from U r (p, rest)
          else [] #
            (case find (\<lambda>(p', rest'). length rest' < length s) others of
               Some (p', rest') \<Rightarrow>
                 take (length s - length rest') s # re_findall_from U r (p', rest')
             | None \<Rightarrow> (case s of [] \<Rightarrow> [] | c # cs \<Rightarrow> re_findall_from U r (Some c, cs))))"
  by pat_completeness auto
termination
  by (relation "measure (\<lambda>(U, r, prev, s). length s)") (auto simp: find_Some_iff)

declare re_sub_from.simps [simp del] re_findall_from.simps [simp del]

definition re_findall :: "pylib \<Rightarrow> regex \<Rightarrow> pystr \<Rightarrow> pystr list" where
  "re_findall U r s = re_findall_from U r (None, s)"

text \<open>
  The patterns of the source:
  \<^verbatim>\<open>\[(?:Source|...|...)\s*\d+[^\]]*\]\<close>,
  \<^verbatim>\<open>\[.*?(?:Page|...):?\s*\d+.*?\]\<close>,
  \<^verbatim>\<open>[a-zA-Z]{4,}\<close>,
  \<^verbatim>\<open>\b\<close> + \<open>re.escape(eng)\<close> + \<^verbatim>\<open>\b\<close> under \<open>re.IGNORECASE\<close>, and
  \<^verbatim>\<open>\([^)]*[a-zA-Z][^)]*\)\<close>; the dots stand for the Hindi words for source,
  context and page.
\<close>

definition source_pattern :: "pylib \<Rightarrow> regex" where
  "source_pattern U =
     seq [Lit (str ''[''),
          Alt (Lit (str ''Source''))
            (Alt (Lit [2360, 2381, 2352, 2379, 2340]) (Lit [2360, 2306, 2342, 2352, 2381, 2349])),
          Star isspace, Cls (re_digit U), Star (re_digit U),
          Star (\<lambda>c. c \<noteq> 93), Lit (str '']'')]"

definition page_pattern :: "pylib \<Rightarrow> regex" where
  "page_pattern U =
     seq [Lit (str ''[''), LazyStar (\<lambda>c. c \<noteq> 10),
          Alt (Lit (str ''Page'')) (Lit [2346, 2371, 2359, 2381, 2336]),
          Opt (Lit (str '':'')), Star isspace, Cls (re_digit U), Star (re_digit U),
          LazyStar (\<lambda>c. c \<noteq> 10), Lit (str '']'')]"

definition english_word_pattern :: regex where
  "english_word_pattern =
     seq [Cls is_ascii_letter, Cls is_ascii_letter, Cls is_ascii_letter, Cls is_ascii_letter,
          Star is_ascii_letter]"

definition term_pattern :: "pystr \<Rightarrow> regex" where
  "term_pattern eng = seq [WordBoundary, LitIgnoreCase eng, WordBoundary]"

definition parenthetical_pattern :: regex where
  "parenthetical_pattern =
     seq [Lit (str ''(''), Star (\<lambda>c. c \<noteq> 41), Cls is_ascii_letter, Star (\<lambda>c. c \<noteq> 41),
          Lit (str '')'')]"

section \<open>Data model\<close>

text \<open>
  Chunks and their metadata are Python dictionaries; a field that is \<open>None\<close> here is a key
  that the dictionary does not have. \<open>chunk[key]\<close> raises \<open>KeyError\<close> on such a key and
  \<open>chunk.get(key, d)\<close> yields \<open>d\<close>. Distances and relevance are floats in the source: a
  finite double is modelled as the rational number it denotes, and every float operation
  rounds its exact result to the nearest double (\<open>to_double\<close> below).
\<close>

record chunk_metadata =
  m_chapter :: "pystr option"
  m_section :: "pystr option"
  m_page_num :: "int option"
  m_token_count :: "int option"
  m_grade :: "int option"
  m_subject :: "pystr option"
  m_meta_source_file :: "pystr option"

record chunk =
  c_chunk_id :: "pystr option"
  c_text :: "pystr option"
  c_metadata :: "chunk_metadata option"
  c_distance :: "rat option"

text \<open>A glossary is a dictionary from English terms to Hindi terms, in insertion order.\<close>

type_synonym glossary = "(pystr \<times> pystr) list"

section \<open>Prompt construction (\<open>OPEAMistralService.build_mistral_prompt\<close>)\<close>

definition is_hindi :: "pylib \<Rightarrow> pystr \<Rightarrow> bool" where
  "is_hindi U language \<longleftrightarrow> u_lower U language \<in> {str ''hindi'', str ''hi''}"

definition max_context_chars :: nat where
  "max_context_chars = 3500"

definition hindi_label :: "pystr" where
  "hindi_label =
     [2360, 2306, 2342, 2352, 2381, 2349, 32]"

text \<open>The per-chunk truncation of the loop body.\<close>

definition truncate_chunk :: "pystr \<Rightarrow> pystr" where
  "truncate_chunk chunk_text =
     (if length chunk_text > 800 then take 800 chunk_text @ str ''...'' else chunk_text)"

text \<open>The labelled content of chunk number \<open>i\<close>, from its truncated text.\<close>

definition chunk_label :: "bool \<Rightarrow> nat \<Rightarrow> pystr" where
  "chunk_label is_hindi_query i =
     (if is_hindi_query then hindi_label @ digits i @ str '':'' @ [10]
      else str ''Context '' @ digits i @ str '':'' @ [10])"

definition chunk_content :: "bool \<Rightarrow> nat \<Rightarrow> pystr \<Rightarrow> pystr" where
  "chunk_content is_hindi_query i chunk_text =
     chunk_label is_hindi_query i @ chunk_text @ [10, 10]"

text \<open>
  The loop over \<open>enumerate(context_chunks, 1)\<close>, with its state \<open>context_text\<close> and
  \<open>total_chars\<close>; \<open>break\<close> returns the blob built so far.
\<close>

fun context_loop ::
  "bool \<Rightarrow> nat \<Rightarrow> chunk list \<Rightarrow> pystr \<Rightarrow> nat \<Rightarrow> py_error + pystr" where
  "context_loop is_hindi_query i [] context_text total_chars = Inr context_text"
| "context_loop is_hindi_query i (chunk # rest) context_text total_chars =
     (case c_text chunk of
        None \<Rightarrow> Inl (KeyError (str ''text''))
      | Some t \<Rightarrow>
          (let content = chunk_content is_hindi_query i (truncate_chunk t) in
           if total_chars + length content > max_context_chars then Inr context_text
           else context_loop is_hindi_query (i + 1) rest
                  (context_text @ content) (total_chars + length content)))"

definition build_context :: "pylib \<Rightarrow> chunk list \<Rightarrow> pystr \<Rightarrow> py_error + pystr" where
  "build_context U context_chunks language =
     context_loop (is_hindi U language) 1 context_chunks [] 0"

definition hindi_system_1 :: "pystr" where
  "hindi_system_1 =
     [2310, 2346, 32, 71, 114, 97, 100, 101, 32]"

definition hindi_system_2 :: "pystr" where
  "hindi_system_2 =
     [32, 2325, 2375, 32, 2331, 2366, 2340, 2381, 2352, 2379, 2306, 32, 2325, 2375, 32, 2354,
     2367, 2319, 32, 2319, 2325, 32, 2357, 2367, 2358, 2375, 2359, 2332, 2381, 2334, 32, 78,
     67, 69, 82, 84, 32]"

definition hindi_system_3 :: "pystr" where
  "hindi_system_3 =
     [32, 2346, 2366, 2336, 2381, 2351, 2346, 2369, 2360, 2381, 2340, 2325, 32, 2358, 2367,
     2325, 2381, 2359, 2325, 32, 2361, 2376, 2306, 2404, 10, 10, 2348, 2361, 2369, 2340, 32,
     2350, 2361, 2340, 2381, 2357, 2346, 2370, 2352, 2381, 2339, 32, 2344, 2367, 2352, 2381,
     2342, 2375, 2358, 58, 10, 49, 46, 32, 2313, 2340, 2381, 2340, 2352, 32, 2325, 2375, 2357,
     2354, 32, 2361, 2367, 2306, 2342, 2368, 32, 2350, 2375, 2306, 32, 2342, 2375, 2306, 32,
     40, 2342, 2375, 2357, 2344, 2366, 2327, 2352, 2368, 32, 2354, 2367, 2346, 2367, 32, 2350,
     2375, 2306, 41, 10, 50, 46, 32, 2309, 2306, 2327, 2381, 2352, 2375, 2332, 2368, 32, 2358,
     2348, 2381, 2342, 2379, 2306, 32, 2325, 2366, 32, 2348, 2367, 2354, 2381, 2325, 2369,
     2354, 32, 2346, 2381, 2352, 2351, 2379, 2327, 32, 2344, 32, 2325, 2352, 2375, 2306, 10,
     51, 46, 32, 2357, 2376, 2332, 2381, 2334, 2366, 2344, 2367, 2325, 32, 2358, 2348, 2381,
     2342, 2379, 2306, 32, 2325, 2375, 32, 2354, 2367, 2319, 32, 2361, 2367, 2306, 2342, 2368,
     32, 2346, 2366, 2352, 2367, 2349, 2366, 2359, 2367, 2325, 32, 2358, 2348, 2381, 2342,
     2379, 2306, 32, 2325, 2366, 32, 2346, 2381, 2352, 2351, 2379, 2327, 32, 2325, 2352, 2375,
     2306, 10, 52, 46, 32, 2325, 2375, 2357, 2354, 32, 2342, 2367, 2319, 32, 2327, 2319, 32,
     2360, 2306, 2342, 2352, 2381, 2349, 32, 2325, 2375, 32, 2310, 2343, 2366, 2352, 32, 2346,
     2352, 32, 2313, 2340, 2381, 2340, 2352, 32, 2342, 2375, 2306, 10, 53, 46, 32, 2313, 2340,
     2381, 2340, 2352, 32, 2350, 2375, 2306, 32, 91, 83, 111, 117, 114, 99, 101, 93, 32, 2351,
     2366, 32, 91, 2360, 2381, 2352, 2379, 2340, 93, 32, 2335, 2376, 2327, 32, 2344, 32, 2354,
     2367, 2326, 2375, 2306, 10, 54, 46, 32, 2360, 2352, 2354, 32, 2324, 2352, 32, 2360, 2381,
     2346, 2359, 2381, 2335, 32, 2349, 2366, 2359, 2366, 32, 2350, 2375, 2306, 32, 2354, 2367,
     2326, 2375, 2306, 10, 55, 46, 32, 71, 114, 97, 100, 101, 32]"

definition hindi_system_4 :: "pystr" where
  "hindi_system_4 =
     [32, 2325, 2375, 32, 2331, 2366, 2340, 2381, 2352, 2379, 2306, 32, 2325, 2375, 32, 2360,
     2381, 2340, 2352, 32, 2325, 2375, 32, 2309, 2344, 2369, 2360, 2366, 2352, 32, 2313, 2340,
     2381, 2340, 2352, 32, 2342, 2375, 2306]"

definition english_system_1 :: "pystr" where
  "english_system_1 =
     str ''You are an expert NCERT textbook tutor for Grade ''"

definition english_system_2 :: "pystr" where
  "english_system_2 =
     str '' ''"

definition english_system_3 :: "pystr" where
  "english_system_3 =
     str '' students.'' @ [10, 10] @ str ''CRITICAL INSTRUCTIONS:'' @ [10] @
     str ''1. Answer in English only'' @ [10] @ str ''2. Answer ONLY the student'' @ [39] @
     str ''s specific question'' @ [10] @
     str ''3. Base your answer ONLY on the provided context'' @ [10] @
     str ''4. Do NOT include [Source X] or citations within your answer text'' @ [10] @
     str ''5. Write in clear, flowing paragraphs'' @ [10] @
     str ''6. Keep your answer suitable for Grade ''"

definition english_system_4 :: "pystr" where
  "english_system_4 =
     str '' students'' @ [10] @ str ''7. If context doesn'' @ [39] @
     str ''t contain the answer, say '' @ [34] @ str ''I don'' @ [39] @
     str ''t have enough information'' @ [34, 10] @
     str ''8. Do NOT answer any example questions found in the context''"

definition hindi_terms_header :: "pystr" where
  "hindi_terms_header =
     [10, 10, 2361, 2367, 2306, 2342, 2368, 32, 2358, 2348, 2381, 2342, 2366, 2357, 2354, 2368,
     32, 40, 2325, 2375, 2357, 2354, 32, 2360, 2306, 2342, 2352, 2381, 2349, 32, 2325, 2375,
     32, 2354, 2367, 2319, 41, 58, 10]"

definition bullet :: "pystr" where
  "bullet =
     [8226, 32]"

definition hindi_context_header :: "pystr" where
  "hindi_context_header =
     [78, 67, 69, 82, 84, 32, 2346, 2366, 2336, 2381, 2351, 2346, 2369, 2360, 2381, 2340, 2325,
     32, 2360, 2375, 32, 2360, 2306, 2342, 2352, 2381, 2349, 32, 2360, 2366, 2350, 2327, 2381,
     2352, 2368, 58]"

definition hindi_question_header :: "pystr" where
  "hindi_question_header =
     [2331, 2366, 2340, 2381, 2352, 32, 2325, 2366, 32, 2346, 2381, 2352, 2358, 2381, 2344, 58]"

definition hindi_answer_instruction :: "pystr" where
  "hindi_answer_instruction =
     [2313, 2340, 2381, 2340, 2352, 32, 40, 2325, 2375, 2357, 2354, 32, 2361, 2367, 2306, 2342,
     2368, 32, 2350, 2375, 2306, 44, 32, 2348, 2367, 2344, 2366, 32, 2325, 2367, 2360, 2368,
     32, 2360, 2381, 2352, 2379, 2340, 32, 2313, 2342, 2381, 2343, 2352, 2339, 32, 2325, 2375,
     41, 58]"

definition english_context_header :: "pystr" where
  "english_context_header =
     str ''Reference Material from NCERT Textbooks:''"

definition english_question_header :: "pystr" where
  "english_question_header =
     str ''Student'' @ [39] @ str ''s Question:''"

definition english_answer_instruction :: "pystr" where
  "english_answer_instruction =
     str ''Answer (in English, without source citations in text):''"

text \<open>The glossary block: one line for each of the first 15 entries.\<close>

definition terms_text :: "glossary \<Rightarrow> pystr" where
  "terms_text hindi_terms =
     hindi_terms_header @
     concat (map (\<lambda>(eng, hindi). bullet @ eng @ str '' = '' @ hindi @ [10]) (take 15 hindi_terms))"


definition system_instruction :: "bool \<Rightarrow> int \<Rightarrow> pystr \<Rightarrow> glossary option \<Rightarrow> pystr" where
  "system_instruction is_hindi_query grade subject hindi_terms =
     (if is_hindi_query
      then hindi_system_1 @ str_of_int grade @ hindi_system_2 @ subject @ hindi_system_3 @
           str_of_int grade @ hindi_system_4 @
           (case hindi_terms of
              Some g \<Rightarrow> (if g \<noteq> [] then terms_text g else [])
            | None \<Rightarrow> [])
      else english_system_1 @ str_of_int grade @ english_system_2 @ subject @ english_system_3 @
           str_of_int grade @ english_system_4)"

definition build_mistral_prompt ::
  "pylib \<Rightarrow> pystr \<Rightarrow> chunk list \<Rightarrow> int \<Rightarrow> pystr \<Rightarrow> pystr \<Rightarrow> glossary option \<Rightarrow>
   py_error + pystr" where
  "build_mistral_prompt U query context_chunks grade language subject hindi_terms =
     (let is_hindi_query = is_hindi U language in
      case build_context U context_chunks language of
        Inl e \<Rightarrow> Inl e
      | Inr context_text \<Rightarrow>
          Inr (str ''[INST] '' @ system_instruction is_hindi_query grade subject hindi_terms @
               [10, 10] @
               (if is_hindi_query then hindi_context_header else english_context_header) @
               [10] @ context_text @ [10, 10] @
               (if is_hindi_query then hindi_question_header else english_question_header) @
               str '' '' @ query @ [10, 10] @
               (if is_hindi_query then hindi_answer_instruction
                else english_answer_instruction) @
               str '' [/INST]''))"

text \<open>
  The blob that the specification describes: the labelled, truncated contents of a list of
  chunk texts, numbered from \<open>i\<close>, concatenated in order.
\<close>

fun labelled :: "bool \<Rightarrow> nat \<Rightarrow> pystr list \<Rightarrow> pystr" where
  "labelled is_hindi_query i [] = []"
| "labelled is_hindi_query i (t # ts) =
     chunk_content is_hindi_query i (truncate_chunk t) @ labelled is_hindi_query (i + 1) ts"

section \<open>Citations (\<open>scripts/api_server.py\<close>)\<close>

text \<open>\<open>d.get(key, default)\<close> on a key that may be missing.\<close>

definition dict_get :: "'a option \<Rightarrow> 'a \<Rightarrow> 'a" where
  "dict_get v dflt = (case v of None \<Rightarrow> dflt | Some x \<Rightarrow> x)"

text \<open>\<open>chunk.get('metadata', {}).get(key, dflt)\<close>.\<close>

definition metadata_get :: "chunk \<Rightarrow> (chunk_metadata \<Rightarrow> 'a option) \<Rightarrow> 'a \<Rightarrow> 'a" where
  "metadata_get chunk field dflt =
     (case c_metadata chunk of None \<Rightarrow> dflt | Some m \<Rightarrow> dict_get (field m) dflt)"

text \<open>
  Rounding to the nearest integer, a tie going to the even one.
\<close>

definition round_half_even :: "rat \<Rightarrow> int" where
  "round_half_even x =
     (let f = \<lfloor>x\<rfloor>; r = x - of_int f in
      if r < 1 / 2 then f else if r > 1 / 2 then f + 1 else if even f then f else f + 1)"

text \<open>
  IEEE 754 binary64, the \<open>float\<close> of Python. \<open>binary_exponent x\<close> is the integer \<open>e\<close>
  with \<open>2^e \<le> |x| < 2^(e+1)\<close>; a double has 53 significant bits, and below \<open>2^-1022\<close>
  (the subnormal range) the exponent stays at \<open>-1022\<close>, so the doubles around \<open>x\<close> are
  the multiples of \<open>quantum x\<close>. \<open>to_double\<close> rounds to the nearest of them, a tie going
  to the even significand. Overflow to infinity is left out: no distance in the range
  [0, 2] of the claims comes near it.
\<close>

definition binary_exponent :: "rat \<Rightarrow> int" where
  "binary_exponent x =
     (case quotient_of \<bar>x\<bar> of (p, q) \<Rightarrow>
        (let e = bitlen p - bitlen q in if 2 powi e \<le> \<bar>x\<bar> then e else e - 1))"

definition double_exponent :: "rat \<Rightarrow> int" where
  "double_exponent x = max (binary_exponent x) (- 1022)"

definition quantum :: "rat \<Rightarrow> rat" where
  "quantum x = 2 powi (double_exponent x - 52)"

definition to_double :: "rat \<Rightarrow> rat" where
  "to_double x = (if x = 0 then 0 else of_int (round_half_even (x / quantum x)) * quantum x)"

text \<open>\<open>a - b\<close> on floats.\<close>

definition float_sub :: "rat \<Rightarrow> rat \<Rightarrow> rat" where
  "float_sub a b = to_double (a - b)"

text \<open>
  \<open>round(x, 3)\<close> on a float: Python rounds the exact value of \<open>x\<close> to the nearest
  multiple of \<open>1/1000\<close>, a tie going to the even one (\<open>round3\<close>), and returns the double
  nearest to that decimal.
\<close>

definition round3 :: "rat \<Rightarrow> rat" where
  "round3 x = of_int (round_half_even (x * 1000)) / 1000"

definition float_round3 :: "rat \<Rightarrow> rat" where
  "float_round3 x = to_double (round3 x)"

text \<open>\<open>relevance = round(1 - distance, 3)\<close>.\<close>

definition relevance_of_distance :: "rat \<Rightarrow> rat" where
  "relevance_of_distance distance = float_round3 (float_sub 1 distance)"

definition excerpt_of :: "pystr \<Rightarrow> pystr" where
  "excerpt_of full_text =
     (let excerpt = strip (take 150 full_text) in
      if length full_text > 150 then excerpt @ str ''...'' else excerpt)"

record citation =
  cit_id :: nat
  cit_source :: pystr
  cit_chapter :: pystr
  cit_section :: pystr
  cit_page :: int
  cit_excerpt :: pystr
  cit_relevance :: rat
  cit_chunk_id :: pystr

text \<open>The body of the first loop of \<open>format_citations\<close>, for the chunk at index \<open>idx\<close>.\<close>

definition citation_of :: "pylib \<Rightarrow> int \<Rightarrow> pystr \<Rightarrow> nat \<Rightarrow> chunk \<Rightarrow> citation" where
  "citation_of U grade subject idx chunk =
     (let chapter = metadata_get chunk m_chapter (str ''Unknown'');
          section = metadata_get chunk m_section (str ''General'');
          chapter = (if chapter = str ''Unknown'' \<and> section \<noteq> str ''General''
                     then section else chapter);
          full_text = dict_get (c_text chunk) [];
          distance = dict_get (c_distance chunk) (1 / 2);
          subject_title = u_title U (replace (str ''_'') (str '' '') subject)
      in \<lparr>cit_id = idx + 1,
          cit_source = str ''NCERT '' @ subject_title @ str '' Grade '' @ str_of_int grade,
          cit_chapter = chapter,
          cit_section = section,
          cit_page = metadata_get chunk m_page_num 0,
          cit_excerpt = excerpt_of full_text,
          cit_relevance = relevance_of_distance distance,
          cit_chunk_id = dict_get (c_chunk_id chunk) []\<rparr>)"

text \<open>\<open>[f(idx, x) for idx, x in enumerate(xs)]\<close>.\<close>

definition enumerate_map :: "(nat \<Rightarrow> 'a \<Rightarrow> 'b) \<Rightarrow> 'a list \<Rightarrow> 'b list" where
  "enumerate_map f xs = map (\<lambda>(idx, x). f idx x) (zip [0..<length xs] xs)"

text \<open>
  \<open>xs.sort(key=key, reverse=True)\<close>: Python's sort is stable, and with \<open>reverse=True\<close> it
  orders by descending key while elements with equal keys keep their original order. That
  is the stable ascending sort on the negated key.
\<close>

definition sort_reverse :: "('a \<Rightarrow> 'k::linordered_idom) \<Rightarrow> 'a list \<Rightarrow> 'a list" where
  "sort_reverse key xs = sort_key (\<lambda>x. - key x) xs"

definition format_citations :: "pylib \<Rightarrow> chunk list \<Rightarrow> int \<Rightarrow> pystr \<Rightarrow> citation list" where
  "format_citations U retrieved_chunks grade subject =
     (let citations = enumerate_map (citation_of U grade subject) retrieved_chunks;
          citations = sort_reverse cit_relevance citations
      in enumerate_map (\<lambda>idx citation. citation\<lparr>cit_id := idx + 1\<rparr>) citations)"

record source_metadata =
  sm_page :: int
  sm_chapter :: pystr
  sm_section :: pystr
  sm_token_count :: int
  sm_grade :: int
  sm_subject :: pystr
  sm_source_file :: pystr

record source_chunk =
  sc_chunk_id :: pystr
  sc_full_text :: pystr
  sc_metadata :: source_metadata
  sc_relevance :: rat

definition formatted_chunk :: "chunk \<Rightarrow> source_chunk" where
  "formatted_chunk chunk =
     \<lparr>sc_chunk_id = dict_get (c_chunk_id chunk) [],
      sc_full_text = dict_get (c_text chunk) [],
      sc_metadata =
        \<lparr>sm_page = metadata_get chunk m_page_num 0,
         sm_chapter = metadata_get chunk m_chapter (str ''Unknown''),
         sm_section = metadata_get chunk m_section (str ''General''),
         sm_token_count = metadata_get chunk m_token_count 0,
         sm_grade = metadata_get chunk m_grade 0,
         sm_subject = metadata_get chunk m_subject [],
         sm_source_file = metadata_get chunk m_meta_source_file []\<rparr>,
      sc_relevance = relevance_of_distance (dict_get (c_distance chunk) (1 / 2))\<rparr>"

definition format_source_chunks :: "chunk list \<Rightarrow> source_chunk list" where
  "format_source_chunks retrieved_chunks =
     sort_reverse sc_relevance (map formatted_chunk retrieved_chunks)"

section \<open>The generation adapter (\<open>OPEAMistralService\<close>)\<close>

record mistral_config =
  cfg_model_path :: pystr
  cfg_n_ctx :: int
  cfg_n_threads :: int
  cfg_n_gpu_layers :: int
  cfg_temperature :: rat
  cfg_top_p :: rat
  cfg_top_k :: int
  cfg_max_tokens :: int
  cfg_verbose :: bool

text \<open>The defaults of the dataclass \<open>MistralConfig\<close>.\<close>

definition MistralConfig :: mistral_config where
  "MistralConfig =
     \<lparr>cfg_model_path = str ''../models/mistral-7b-instruct-v0.2.gguf'',
      cfg_n_ctx = 4096, cfg_n_threads = 8, cfg_n_gpu_layers = 0,
      cfg_temperature = 3 / 10, cfg_top_p = 95 / 100, cfg_top_k = 40,
      cfg_max_tokens = 512, cfg_verbose = False\<rparr>"

text \<open>
  The generation collaborator: called with the prompt and the sampling arguments, it
  raises or returns a response. The response's fields are read by subscripting, which
  raises when a field is missing.
\<close>

record sampling =
  sp_max_tokens :: int
  sp_temperature :: rat
  sp_top_p :: rat
  sp_top_k :: int
  sp_stop :: "pystr list"
  sp_echo :: bool

record llm_response =
  choice_text :: "pystr option"
  completion_tokens :: "int option"

type_synonym llama = "pystr \<Rightarrow> sampling \<Rightarrow> py_error + llm_response"

record mistral_service =
  svc_config :: mistral_config
  svc_model :: llama

record generation_result =
  g_answer :: pystr
  g_tokens_used :: int
  g_model :: pystr
  g_success :: bool
  g_error :: "pystr option"

text \<open>\<open>str(e)\<close> for the exceptions of the model.\<close>

fun error_str :: "py_error \<Rightarrow> pystr" where
  "error_str (KeyError k) = [39] @ k @ [39]"
| "error_str (TypeError m) = m"
| "error_str (ReError m) = m"
| "error_str (ModelError m) = m"
| "error_str (HTTPException code detail) = digits code @ str '': '' @ detail"

definition stop_3 :: "pystr" where
  "stop_3 =
     [2360, 2306, 2342, 2352, 2381, 2349, 58]"

definition stop_4 :: "pystr" where
  "stop_4 =
     [2331, 2366, 2340, 2381, 2352, 32, 2325, 2366, 32, 2346, 2381, 2352, 2358, 2381, 2344, 58]"

definition stop_sequences :: "pystr list" where
  "stop_sequences = [str ''[INST]'', str ''Student:'', str ''Context:'', stop_3, stop_4]"

definition model_name :: pystr where
  "model_name = str ''Mistral-7B-Instruct-v0.2''"

text \<open>The three lines that remove citation markers and collapse whitespace.\<close>

definition clean_citations :: "pylib \<Rightarrow> pystr \<Rightarrow> pystr" where
  "clean_citations U answer =
     collapse_spaces (re_sub U (page_pattern U) [] (re_sub U (source_pattern U) [] answer))"

text \<open>\<open>sorted(hindi_terms.items(), key=lambda x: len(x[0]), reverse=True)\<close>.\<close>

definition sorted_terms :: "glossary \<Rightarrow> glossary" where
  "sorted_terms hindi_terms = sort_reverse (\<lambda>x. int (length (fst x))) hindi_terms"

text \<open>The loop of whole-word, case-insensitive substitutions of the adapter.\<close>

fun substitute_terms :: "pylib \<Rightarrow> glossary \<Rightarrow> pystr \<Rightarrow> py_error + pystr" where
  "substitute_terms U [] answer_text = Inr answer_text"
| "substitute_terms U ((eng, hindi) # rest) answer_text =
     (case re_template U hindi of
        Inl e \<Rightarrow> Inl e
      | Inr repl \<Rightarrow> substitute_terms U rest (re_sub U (term_pattern eng) repl answer_text))"

text \<open>
  The block of \<open>generate_answer\<close> that checks a Hindi response for English words. The
  first component of the result tells whether the warning about English words was logged;
  the second is the answer text after the block, or the exception of \<open>re.sub\<close>.
\<close>

definition verify_hindi ::
  "pylib \<Rightarrow> pystr \<Rightarrow> glossary option \<Rightarrow> pystr \<Rightarrow> bool \<times> (py_error + pystr)" where
  "verify_hindi U language hindi_terms answer_text =
     (if is_hindi U language then
        (let english_words = re_findall U english_word_pattern answer_text in
         if length english_words > 5 then
           (True,
            case hindi_terms of
              Some g \<Rightarrow>
                (if g \<noteq> [] then substitute_terms U (sorted_terms g) answer_text
                 else Inr answer_text)
            | None \<Rightarrow> Inr answer_text)
         else (False, Inr answer_text))
      else (False, Inr answer_text))"

text \<open>The keyword arguments of the call of the model.\<close>

definition sampling_args :: "mistral_config \<Rightarrow> sampling" where
  "sampling_args config =
     \<lparr>sp_max_tokens = cfg_max_tokens config, sp_temperature = cfg_temperature config,
      sp_top_p = cfg_top_p config, sp_top_k = cfg_top_k config,
      sp_stop = stop_sequences, sp_echo = False\<rparr>"

text \<open>The body of the \<open>try\<close> block: any exception in it is an \<open>Inl\<close>.\<close>

definition generate_body ::
  "pylib \<Rightarrow> mistral_service \<Rightarrow> pystr \<Rightarrow> pystr \<Rightarrow> glossary option \<Rightarrow>
   py_error + generation_result" where
  "generate_body U svc prompt language hindi_terms =
     (case svc_model svc prompt (sampling_args (svc_config svc)) of
        Inl e \<Rightarrow> Inl e
      | Inr response \<Rightarrow>
          (case choice_text response of
             None \<Rightarrow> Inl (KeyError (str ''text''))
           | Some generated \<Rightarrow>
               (case snd (verify_hindi U language hindi_terms
                            (clean_citations U (strip generated))) of
                  Inl e \<Rightarrow> Inl e
                | Inr answer_text \<Rightarrow>
                    (case completion_tokens response of
                       None \<Rightarrow> Inl (KeyError (str ''completion_tokens''))
                     | Some tokens_used \<Rightarrow>
                         Inr \<lparr>g_answer = answer_text, g_tokens_used = tokens_used,
                              g_model = model_name, g_success = True,
                              g_error = None\<rparr>))))"

text \<open>
  \<open>OPEAMistralService.generate_answer\<close>. The prompt is built before the \<open>try\<close>, so an
  exception of \<open>build_mistral_prompt\<close> leaves the function; one of the body becomes the
  failure dictionary.
\<close>

definition mistral_generate_answer ::
  "pylib \<Rightarrow> mistral_service \<Rightarrow> pystr \<Rightarrow> chunk list \<Rightarrow> int \<Rightarrow> pystr \<Rightarrow> pystr \<Rightarrow>
   glossary option \<Rightarrow> py_error + generation_result" where
  "mistral_generate_answer U svc query context_chunks grade language subject hindi_terms =
     (case build_mistral_prompt U query context_chunks grade language subject hindi_terms of
        Inl e \<Rightarrow> Inl e
      | Inr prompt \<Rightarrow>
          Inr (case generate_body U svc prompt language hindi_terms of
                 Inr result \<Rightarrow> result
               | Inl e \<Rightarrow>
                   \<lparr>g_answer = str ''Error: Could not generate response'', g_tokens_used = 0,
                    g_model = model_name, g_success = False,
                    g_error = Some (error_str e)\<rparr>))"

section \<open>The orchestrator (\<open>OPEARAGOrchestrator\<close>)\<close>

definition hindi_to_english :: glossary where
  "hindi_to_english =
     [([2346, 2381, 2352, 2325, 2366, 2358, 32, 2360, 2306, 2358, 2381, 2354, 2375, 2359,
       2339], str ''photosynthesis''),
      ([2346, 2381, 2352, 2325, 2366, 2358], str ''light''),
      ([2360, 2306, 2358, 2381, 2354, 2375, 2359, 2339], str ''synthesis''),
      ([2346, 2380, 2343, 2375], str ''plants''),
      ([2346, 2340, 2381, 2340, 2375], str ''leaves''),
      ([2361, 2352, 2366], str ''green''),
      ([2349, 2379, 2332, 2344], str ''food''),
      ([2325, 2366, 2352, 2381, 2348, 2344, 32, 2337, 2366, 2311, 2321, 2325, 2381, 2360,
       2366, 2311, 2337], str ''carbon dioxide''),
      ([2346, 2366, 2344, 2368], str ''water''),
      ([2360, 2370, 2352, 2381, 2351, 32, 2325, 2366, 32, 2346, 2381, 2352, 2325, 2366, 2358],
       str ''sunlight''),
      ([2321, 2325, 2381, 2360, 2368, 2332, 2344], str ''oxygen''),
      ([2357, 2366, 2351, 2369, 2350, 2306, 2337, 2354], str ''atmosphere''),
      ([2346, 2352, 2366, 2357, 2352, 2381, 2340, 2344], str ''reflection''),
      ([2331, 2366, 2351, 2366], str ''shadow''),
      ([2346, 2366, 2352, 2342, 2352, 2381, 2358, 2368], str ''transparent''),
      ([2309, 2346, 2366, 2352, 2342, 2352, 2381, 2358, 2368], str ''opaque''),
      ([2309, 2352, 2381, 2343, 2346, 2366, 2352, 2342, 2352, 2381, 2358, 2368],
       str ''translucent'')]"

text \<open>
  \<open>_translate_hindi_query\<close>: the loop over the dictionary, which tests each term against
  the original query and replaces in the translated one.
\<close>

fun translate_loop :: "glossary \<Rightarrow> pystr \<Rightarrow> pystr \<Rightarrow> pystr" where
  "translate_loop [] query translated_query = translated_query"
| "translate_loop ((hindi_term, english_term) # rest) query translated_query =
     translate_loop rest query
       (if contains hindi_term query then replace hindi_term english_term translated_query
        else translated_query)"

definition translate_hindi_query :: "pystr \<Rightarrow> pystr" where
  "translate_hindi_query query = translate_loop hindi_to_english query query"

text \<open>\<open>_get_hindi_terms\<close>.\<close>

definition english_to_hindi :: glossary where
  "english_to_hindi =
     [(str ''photosynthesis'', [2346, 2381, 2352, 2325, 2366, 2358, 32, 2360, 2306, 2358,
       2381, 2354, 2375, 2359, 2339]),
      (str ''light'', [2346, 2381, 2352, 2325, 2366, 2358]),
      (str ''plants'', [2346, 2380, 2343, 2375]),
      (str ''leaves'', [2346, 2340, 2381, 2340, 2375]),
      (str ''green'', [2361, 2352, 2366]),
      (str ''food'', [2349, 2379, 2332, 2344]),
      (str ''carbon dioxide'', [2325, 2366, 2352, 2381, 2348, 2344, 32, 2337, 2366, 2311,
       2321, 2325, 2381, 2360, 2366, 2311, 2337]),
      (str ''water'', [2346, 2366, 2344, 2368]),
      (str ''sunlight'', [2360, 2370, 2352, 2381, 2351, 32, 2325, 2366, 32, 2346, 2381, 2352,
       2325, 2366, 2358]),
      (str ''oxygen'', [2321, 2325, 2381, 2360, 2368, 2332, 2344]),
      (str ''atmosphere'', [2357, 2366, 2351, 2369, 2350, 2306, 2337, 2354]),
      (str ''reflection'', [2346, 2352, 2366, 2357, 2352, 2381, 2340, 2344]),
      (str ''shadow'', [2331, 2366, 2351, 2366]),
      (str ''transparent'', [2346, 2366, 2352, 2342, 2352, 2381, 2358, 2368]),
      (str ''opaque'', [2309, 2346, 2366, 2352, 2342, 2352, 2381, 2358, 2368]),
      (str ''translucent'', [2309, 2352, 2381, 2343, 2346, 2366, 2352, 2342, 2352, 2381, 2358,
       2368]),
      (str ''process'', [2346, 2381, 2352, 2325, 2381, 2352, 2367, 2351, 2366]),
      (str ''energy'', [2314, 2352, 2381, 2332, 2366]),
      (str ''chlorophyll'', [2361, 2352, 2367, 2340, 2354, 2357, 2325]),
      (str ''glucose'', [2327, 2381, 2354, 2370, 2325, 2379, 2332]),
      (str ''starch'', [2360, 2381, 2335, 2366, 2352, 2381, 2330]),
      (str ''production'', [2313, 2340, 2381, 2346, 2366, 2342, 2344]),
      (str ''results'', [2346, 2352, 2367, 2339, 2366, 2350]),
      (str ''presence'', [2313, 2346, 2360, 2381, 2341, 2367, 2340, 2367]),
      (str ''using'', [2325, 2366, 32, 2313, 2346, 2351, 2379, 2327, 32, 2325, 2352, 2325,
       2375]),
      (str ''make'', [2348, 2344, 2366, 2340, 2375, 32, 2361, 2376, 2306]),
      (str ''their'', [2309, 2346, 2344, 2366]),
      (str ''by which'', [2332, 2367, 2360, 2325, 2375, 32, 2342, 2381, 2357, 2366, 2352,
       2366]),
      (str ''is a'', [2319, 2325]),
      (str ''and'', [2340, 2341, 2366]),
      (str ''in the'', [2350, 2375, 2306]),
      (str ''of'', [2325, 2366]),
      (str ''sun'', [2360, 2370, 2352, 2381, 2351])]"

text \<open>The four replacements of one glossary term in \<open>generate_answer\<close>.\<close>

definition replace_term_forms :: "pylib \<Rightarrow> pystr \<times> pystr \<Rightarrow> pystr \<Rightarrow> pystr" where
  "replace_term_forms U t answer =
     (case t of (eng_term, hindi_term) \<Rightarrow>
        replace (u_lower U eng_term) hindi_term
          (replace (u_upper U eng_term) hindi_term
             (replace (u_capitalize U eng_term) hindi_term
                (replace eng_term hindi_term answer))))"

text \<open>The block of \<open>generate_answer\<close> that replaces English terms in a Hindi response.\<close>

definition replace_english_terms :: "pylib \<Rightarrow> pystr \<Rightarrow> glossary option \<Rightarrow> pystr \<Rightarrow> pystr" where
  "replace_english_terms U language hindi_terms answer =
     (case hindi_terms of
        Some g \<Rightarrow>
          (if is_hindi U language \<and> g \<noteq> []
           then collapse_spaces
                  (re_sub U parenthetical_pattern []
                     (foldl (\<lambda>a t. replace_term_forms U t a) answer (sorted_terms g)))
           else answer)
      | None \<Rightarrow> answer)"

text \<open>\<open>OPEARAGOrchestrator.generate_answer\<close>.\<close>

definition orchestrator_generate_answer ::
  "pylib \<Rightarrow> mistral_service option \<Rightarrow> pystr \<Rightarrow> chunk list \<Rightarrow> int \<Rightarrow> pystr \<Rightarrow> pystr \<Rightarrow>
   glossary option \<Rightarrow> py_error + pystr" where
  "orchestrator_generate_answer U llm_service query context_chunks grade subject language
     hindi_terms =
     (case llm_service of
        None \<Rightarrow> Inr (str ''Error: LLM service not available'')
      | Some svc \<Rightarrow>
          (case mistral_generate_answer U svc query context_chunks grade language subject
                  hindi_terms of
             Inl e \<Rightarrow> Inl e
           | Inr result \<Rightarrow>
               (if g_success result
                then Inr (replace_english_terms U language hindi_terms
                            (clean_citations U (g_answer result)))
                else Inr (str ''Error: Could not generate response''))))"

text \<open>
  The orchestrator object: the embedding model and the vector store are collaborators
  that may raise; \<open>llm_service\<close> is \<open>None\<close> when Mistral is not used.
\<close>

record rag_orchestrator =
  embedding_model :: "pystr \<Rightarrow> py_error + rat list"
  vector_store ::
    "rat list \<Rightarrow> int \<Rightarrow> pystr option \<Rightarrow> pystr \<Rightarrow> int option \<Rightarrow> py_error + chunk list"
  llm_service :: "mistral_service option"

record light_citation =
  lc_chapter :: pystr
  lc_page :: "pystr + int"

record query_response =
  qr_answer :: pystr
  qr_language :: pystr
  qr_confidence :: rat
  qr_citations :: "light_citation list"
  qr_retrieved_chunks :: "chunk list"

text \<open>\<open>x or d\<close> on an optional string.\<close>

definition or_else :: "pystr option \<Rightarrow> pystr \<Rightarrow> pystr" where
  "or_else x d = (case x of None \<Rightarrow> d | Some s \<Rightarrow> if s = [] then d else s)"

text \<open>The comprehension that builds \<open>context_chunks\<close>.\<close>

fun context_chunks_of :: "chunk list \<Rightarrow> py_error + chunk list" where
  "context_chunks_of [] = Inr []"
| "context_chunks_of (chunk # rest) =
     (case c_text chunk of
        None \<Rightarrow> Inl (KeyError (str ''text''))
      | Some t \<Rightarrow>
          (case c_metadata chunk of
             None \<Rightarrow> Inl (KeyError (str ''metadata''))
           | Some m \<Rightarrow>
               (case context_chunks_of rest of
                  Inl e \<Rightarrow> Inl e
                | Inr cs \<Rightarrow>
                    Inr (\<lparr>c_chunk_id = None, c_text = Some t, c_metadata = Some m,
                          c_distance = None\<rparr> # cs))))"

text \<open>The comprehension that builds \<open>citations\<close>.\<close>

fun citations_of :: "chunk list \<Rightarrow> py_error + light_citation list" where
  "citations_of [] = Inr []"
| "citations_of (chunk # rest) =
     (case c_metadata chunk of
        None \<Rightarrow> Inl (KeyError (str ''metadata''))
      | Some m \<Rightarrow>
          (case citations_of rest of
             Inl e \<Rightarrow> Inl e
           | Inr cs \<Rightarrow>
               Inr (\<lparr>lc_chapter = dict_get (m_chapter m) (str ''Unknown''),
                     lc_page = (case m_page_num m of None \<Rightarrow> Inl (str ''Unknown'')
                                | Some n \<Rightarrow> Inr n)\<rparr> # cs)))"

text \<open>The string that is embedded for the search.\<close>

definition search_query_of :: "pystr \<Rightarrow> pystr" where
  "search_query_of query = (if \<not> isascii query then translate_hindi_query query else query)"

text \<open>\<open>OPEARAGOrchestrator.process_query\<close>.\<close>

definition orchestrator_process_query ::
  "pylib \<Rightarrow> rag_orchestrator \<Rightarrow> pystr \<Rightarrow> int \<Rightarrow> pystr option \<Rightarrow> int option \<Rightarrow>
   pystr option \<Rightarrow> py_error + query_response" where
  "orchestrator_process_query U self query grade subject top_k language =
     (let response_language = or_else language (str ''english'');
          search_query = search_query_of query in
      case embedding_model self search_query of
        Inl e \<Rightarrow> Inl e
      | Inr query_embedding \<Rightarrow>
      (case vector_store self query_embedding grade subject (str ''english'') top_k of
        Inl e \<Rightarrow> Inl e
      | Inr retrieved_chunks \<Rightarrow>
      (case context_chunks_of retrieved_chunks of
        Inl e \<Rightarrow> Inl e
      | Inr context_chunks \<Rightarrow>
      (case orchestrator_generate_answer U (llm_service self) query context_chunks grade
              (or_else subject (str ''science'')) response_language
              (if is_hindi U response_language then Some english_to_hindi else None) of
        Inl e \<Rightarrow> Inl e
      | Inr answer \<Rightarrow>
      (case citations_of retrieved_chunks of
        Inl e \<Rightarrow> Inl e
      | Inr citations \<Rightarrow>
          Inr \<lparr>qr_answer = answer, qr_language = response_language,
               qr_confidence = 9 / 10, qr_citations = citations,
               qr_retrieved_chunks = retrieved_chunks\<rparr>)))))"

section \<open>The request surface (\<open>process_query\<close> of \<open>scripts/api_server.py\<close>)\<close>

record query_request =
  rq_query :: pystr
  rq_grade :: int
  rq_subject :: pystr
  rq_language :: "pystr option"
  rq_top_k :: "int option"

record query_metadata =
  md_grade :: int
  md_subject :: pystr
  md_language :: pystr
  md_query_language :: pystr
  md_model :: pystr
  md_tokens_used :: int
  md_confidence :: rat
  md_chunks_retrieved :: nat
  md_processing_time_ms :: int

record api_response =
  ar_answer :: pystr
  ar_metadata :: query_metadata
  ar_citations :: "citation list"
  ar_source_chunks :: "source_chunk list"

definition detect_query_language :: "pystr \<Rightarrow> pystr" where
  "detect_query_language query = (if \<not> isascii query then str ''hindi'' else str ''english'')"

text \<open>\<open>min(request.top_k, 3)\<close> raises \<open>TypeError\<close> on \<open>None\<close>.\<close>

definition adjusted_top_k :: "pylib \<Rightarrow> pystr \<Rightarrow> int option \<Rightarrow> py_error + int option" where
  "adjusted_top_k U response_language top_k =
     (if is_hindi U response_language
      then (case top_k of
              None \<Rightarrow> Inl (TypeError (str ''not supported between instances''))
            | Some k \<Rightarrow> Inr (Some (min k 3)))
      else Inr top_k)"

text \<open>
  \<open>hasattr(rag_orchestrator.llm_service, 'config')\<close> holds for a Mistral service and
  fails for \<open>None\<close>.
\<close>

definition reported_tokens :: "mistral_service option \<Rightarrow> int" where
  "reported_tokens service =
     (case service of None \<Rightarrow> 512 | Some svc \<Rightarrow> cfg_max_tokens (svc_config svc))"

text \<open>The body of the \<open>try\<close> block; \<open>elapsed_ms\<close> is the reading of the clock.\<close>

definition process_query_body ::
  "pylib \<Rightarrow> int \<Rightarrow> rag_orchestrator \<Rightarrow> query_request \<Rightarrow> py_error + api_response" where
  "process_query_body U elapsed_ms orchestrator request =
     (let query_language = detect_query_language (rq_query request);
          response_language = or_else (rq_language request) (str ''english'') in
      case adjusted_top_k U response_language (rq_top_k request) of
        Inl e \<Rightarrow> Inl e
      | Inr top_k \<Rightarrow>
      (case orchestrator_process_query U orchestrator (rq_query request) (rq_grade request)
              (Some (rq_subject request)) top_k (Some response_language) of
        Inl e \<Rightarrow> Inl e
      | Inr rag_response \<Rightarrow>
          Inr \<lparr>ar_answer = qr_answer rag_response,
               ar_metadata =
                 \<lparr>md_grade = rq_grade request,
                  md_subject = rq_subject request,
                  md_language = response_language,
                  md_query_language = query_language,
                  md_model = model_name,
                  md_tokens_used = reported_tokens (llm_service orchestrator),
                  md_confidence = qr_confidence rag_response,
                  md_chunks_retrieved = length (qr_retrieved_chunks rag_response),
                  md_processing_time_ms = elapsed_ms\<rparr>,
               ar_citations =
                 format_citations U (qr_retrieved_chunks rag_response) (rq_grade request)
                   (rq_subject request),
               ar_source_chunks =
                 format_source_chunks (qr_retrieved_chunks rag_response)\<rparr>))"

text \<open>
  The endpoint: status 503 without an orchestrator, and status 500 for any exception of
  the body.
\<close>

definition api_process_query ::
  "pylib \<Rightarrow> int \<Rightarrow> rag_orchestrator option \<Rightarrow> query_request \<Rightarrow> py_error + api_response" where
  "api_process_query U elapsed_ms rag_orchestrator request =
     (case rag_orchestrator of
        None \<Rightarrow> Inl (HTTPException 503 (str ''RAG orchestrator not initialized''))
      | Some orchestrator \<Rightarrow>
          (case process_query_body U elapsed_ms orchestrator request of
             Inl e \<Rightarrow> Inl (HTTPException 500 (str ''Query processing failed: '' @ error_str e))
           | Inr response \<Rightarrow> Inr response))"











section \<open>Example data\<close>

text \<open>A chunk dictionary that has only the key \<open>text\<close>.\<close>

definition text_chunk :: "pystr \<Rightarrow> chunk" where
  "text_chunk t = \<lparr>c_chunk_id = None, c_text = Some t, c_metadata = None, c_distance = None\<rparr>"

text \<open>Three retrieved chunks; the first and the third are at the same distance.\<close>

definition chunk_a :: chunk where
  "chunk_a = \<lparr>c_chunk_id = Some (str ''a''), c_text = Some (str ''alpha''),
              c_metadata = None, c_distance = Some (1 / 4)\<rparr>"

definition chunk_b :: chunk where
  "chunk_b = \<lparr>c_chunk_id = Some (str ''b''), c_text = Some (str ''beta''),
              c_metadata = None, c_distance = Some (1 / 8)\<rparr>"

definition chunk_c :: chunk where
  "chunk_c = \<lparr>c_chunk_id = Some (str ''c''), c_text = Some (str ''gamma''),
              c_metadata = None, c_distance = Some (1 / 4)\<rparr>"

text \<open>
  A pipeline for the examples: a model that answers with a fixed text and 12 completion
  tokens, one that raises, an index that returns one chunk, and a request in English.
\<close>

definition example_chunk :: chunk where
  "example_chunk =
     \<lparr>c_chunk_id = Some (str ''c1''),
      c_text = Some (str ''Natural numbers are numbers used for counting.''),
      c_metadata =
        Some \<lparr>m_chapter = Some (str ''Numbers''), m_section = None, m_page_num = Some 5,
              m_token_count = None, m_grade = Some 6, m_subject = Some (str ''mathematics''),
              m_meta_source_file = None\<rparr>,
      c_distance = Some (1 / 4)\<rparr>"

definition example_model :: llama where
  "example_model prompt args =
     Inr \<lparr>choice_text = Some (str '' Counting numbers [Source 1] are natural. ''),
          completion_tokens = Some 12\<rparr>"

text \<open>A model whose generation stops at the limit of 512 tokens.\<close>

definition limit_model :: llama where
  "limit_model prompt args =
     Inr \<lparr>choice_text = Some (str '' Counting numbers [Source 1] are natural. ''),
          completion_tokens = Some 512\<rparr>"

definition failing_model :: llama where
  "failing_model prompt args = Inl (ModelError (str ''out of memory''))"

definition example_orchestrator :: "llama \<Rightarrow> rag_orchestrator" where
  "example_orchestrator model =
     \<lparr>embedding_model = (\<lambda>search_query. Inr []),
      vector_store = (\<lambda>query_embedding grade subject language top_k. Inr [example_chunk]),
      llm_service = Some \<lparr>svc_config = MistralConfig, svc_model = model\<rparr>\<rparr>"

definition example_request :: query_request where
  "example_request =
     \<lparr>rq_query = str ''What are natural numbers?'', rq_grade = 6,
      rq_subject = str ''mathematics'', rq_language = Some (str ''english''),
      rq_top_k = Some 3\<rparr>"





section \<open>Context assembly\<close>

lemma context_loop_prefix:
  assumes "map c_text cs = map Some ts" and "tot \<le> max_context_chars"
  shows "\<exists>k\<le>length ts.
           context_loop h i cs ctx tot = Inr (ctx @ labelled h i (take k ts)) \<and>
           tot + length (labelled h i (take k ts)) \<le> max_context_chars \<and>
           (k < length ts \<longrightarrow>
              tot + length (labelled h i (take k ts)) +
              length (chunk_content h (i + k) (truncate_chunk (ts ! k))) > max_context_chars)"
  using assms
proof (induction ts arbitrary: cs i ctx tot)
  case Nil
  then show ?case by simp
next
  case (Cons t ts)
  from Cons.prems(1) obtain c cs' where cs: "cs = c # cs'" and c: "c_text c = Some t"
    and rest: "map c_text cs' = map Some ts"
    by (cases cs) auto
  define cc where "cc = chunk_content h i (truncate_chunk t)"
  show ?case
  proof (cases "tot + length cc > max_context_chars")
    case True
    have "context_loop h i cs ctx tot = Inr (ctx @ labelled h i (take 0 (t # ts)))"
      using True by (simp add: cs c cc_def)
    moreover have "tot + length (labelled h i (take 0 (t # ts))) \<le> max_context_chars"
      using Cons.prems(2) by simp
    moreover have "tot + length (labelled h i (take 0 (t # ts))) +
        length (chunk_content h (i + 0) (truncate_chunk ((t # ts) ! 0))) > max_context_chars"
      using True by (simp add: cc_def)
    ultimately show ?thesis by (intro exI [of _ 0]) simp
  next
    case False
    then have le: "tot + length cc \<le> max_context_chars" by simp
    from Cons.IH [OF rest le, of "i + 1" "ctx @ cc"] obtain k where k: "k \<le> length ts"
      and run: "context_loop h (i + 1) cs' (ctx @ cc) (tot + length cc) =
                Inr ((ctx @ cc) @ labelled h (i + 1) (take k ts))"
      and bound: "tot + length cc + length (labelled h (i + 1) (take k ts)) \<le> max_context_chars"
      and stop: "k < length ts \<longrightarrow>
                 tot + length cc + length (labelled h (i + 1) (take k ts)) +
                 length (chunk_content h (i + 1 + k) (truncate_chunk (ts ! k))) > max_context_chars"
      by blast
    have "context_loop h i cs ctx tot = Inr (ctx @ labelled h i (take (Suc k) (t # ts)))"
      using False run by (simp add: cs c cc_def)
    moreover have "tot + length (labelled h i (take (Suc k) (t # ts))) \<le> max_context_chars"
      using bound by (simp add: cc_def add.assoc)
    moreover have "Suc k < length (t # ts) \<longrightarrow>
        tot + length (labelled h i (take (Suc k) (t # ts))) +
        length (chunk_content h (i + Suc k) (truncate_chunk ((t # ts) ! Suc k))) > max_context_chars"
      using stop by (simp add: cc_def add.assoc)
    moreover have "Suc k \<le> length (t # ts)" using k by simp
    ultimately show ?thesis by blast
  qed
qed

lemma context_loop_bound:
  "context_loop h i cs ctx tot = Inr blob \<Longrightarrow> tot = length ctx \<Longrightarrow>
   tot \<le> max_context_chars \<Longrightarrow> length blob \<le> max_context_chars"
proof (induction cs arbitrary: i ctx tot)
  case Nil
  then show ?case by simp
next
  case (Cons c cs)
  then obtain t where t: "c_text c = Some t" by (cases "c_text c") auto
  define cc where "cc = chunk_content h i (truncate_chunk t)"
  show ?case
  proof (cases "tot + length cc > max_context_chars")
    case True
    with Cons.prems show ?thesis by (simp add: t cc_def)
  next
    case False
    with Cons.prems(1) have "context_loop h (i + 1) cs (ctx @ cc) (tot + length cc) = Inr blob"
      by (simp add: t cc_def Let_def)
    from Cons.IH [OF this] False Cons.prems(2) show ?thesis by simp
  qed
qed

text \<open>
  C1. The context blob never exceeds the budget of 3500 characters, and assembly stops at
  the first overflow: for retrieved chunks with texts \<open>ts\<close>, the blob is the labelled,
  truncated content of exactly the first \<open>k\<close> chunks, in retrieval order, where chunk
  \<open>k + 1\<close> (if there is one) is the first whose content would push the total over 3500.
  That chunk and all later ones are left out, whatever their size. The bound also holds
  for any list of chunk dictionaries on which the loop does not raise.
\<close>

theorem context_budget_monotone_stop:
  "(map c_text context_chunks = map Some ts \<longrightarrow>
      (\<exists>k\<le>length ts.
         build_context U context_chunks language =
           Inr (labelled (is_hindi U language) 1 (take k ts)) \<and>
         length (labelled (is_hindi U language) 1 (take k ts)) \<le> 3500 \<and>
         (k < length ts \<longrightarrow>
            length (labelled (is_hindi U language) 1 (take k ts)) +
            length (chunk_content (is_hindi U language) (k + 1) (truncate_chunk (ts ! k)))
              > 3500))) \<and>
   (build_context U context_chunks language = Inr blob \<longrightarrow> length blob \<le> 3500)"
proof -
  have a: "\<exists>k\<le>length ts.
         build_context U context_chunks language =
           Inr (labelled (is_hindi U language) 1 (take k ts)) \<and>
         length (labelled (is_hindi U language) 1 (take k ts)) \<le> 3500 \<and>
         (k < length ts \<longrightarrow>
            length (labelled (is_hindi U language) 1 (take k ts)) +
            length (chunk_content (is_hindi U language) (k + 1) (truncate_chunk (ts ! k)))
              > 3500)"
    if "map c_text context_chunks = map Some ts"
    using context_loop_prefix [OF that, of 0 "is_hindi U language" 1 "[]"]
    by (simp add: build_context_def max_context_chars_def add.commute)
  have b: "length blob \<le> 3500" if "build_context U context_chunks language = Inr blob"
    using context_loop_bound [of "is_hindi U language" 1 context_chunks "[]" 0 blob] that
    by (simp add: build_context_def max_context_chars_def)
  from a b show ?thesis by blast
qed

text \<open>
  Five chunks of 800 characters and a sixth of one character: four chunks fill 3252
  characters, the fifth would make 4065 and stops the loop, and the sixth, which would
  have fitted, is left out with it.
\<close>

lemma context_stop_example:
  "build_context basic_latin
     (map text_chunk [replicate 800 97, replicate 800 97, replicate 800 97, replicate 800 97,
                      replicate 800 97, [97]]) (str ''english'') =
   Inr (labelled False 1
          [replicate 800 97, replicate 800 97, replicate 800 97, replicate 800 97])"
  by (simp add: build_context_def is_hindi_def basic_latin_def str_def ascii_lower_def
      is_ascii_upper_def text_chunk_def truncate_chunk_def chunk_content_def chunk_label_def
      digits.simps max_context_chars_def)

theorem context_budget_monotone_stop_witness:
  "map c_text
     (map text_chunk [replicate 800 97, replicate 800 97, replicate 800 97, replicate 800 97,
                      replicate 800 97, [97]]) =
   map Some [replicate 800 97, replicate 800 97, replicate 800 97, replicate 800 97,
             replicate 800 97, [97]] \<and>
   build_context basic_latin
     (map text_chunk [replicate 800 97, replicate 800 97, replicate 800 97, replicate 800 97,
                      replicate 800 97, [97]]) (str ''english'') =
   Inr (labelled False 1
          [replicate 800 97, replicate 800 97, replicate 800 97, replicate 800 97]) \<and>
   length (labelled False 1
             [replicate 800 97, replicate 800 97, replicate 800 97, replicate 800 97]) \<le> 3500"
proof -
  have h: "map c_text
      (map text_chunk [replicate 800 97, replicate 800 97, replicate 800 97, replicate 800 97,
                       replicate 800 97, [97]]) =
    map Some [replicate 800 97, replicate 800 97, replicate 800 97, replicate 800 97,
              replicate 800 97, [97]]"
    by (simp add: text_chunk_def)
  from context_budget_monotone_stop [of
      "map text_chunk [replicate 800 97, replicate 800 97, replicate 800 97, replicate 800 97,
                       replicate 800 97, [97]]"
      "[replicate 800 97, replicate 800 97, replicate 800 97, replicate 800 97,
        replicate 800 97, [97]]"
      basic_latin "str ''english''"
      "labelled False 1 [replicate 800 97, replicate 800 97, replicate 800 97, replicate 800 97]"]
    context_stop_example h
  show ?thesis by blast
qed

text \<open>
  C4. A chunk that is included in the blob contributes its label, then at most the first
  800 characters of its text, then the marker \<open>...\<close> exactly when the text was longer
  than 800 characters, then the separator. A text of at most 800 characters is included
  whole and without marker.
\<close>

theorem included_chunk_truncated:
  assumes "c_text chunk = Some t"
    and "\<not> total_chars + length (chunk_content h i (truncate_chunk t)) > 3500"
  shows "context_loop h i (chunk # rest) context_text total_chars =
           context_loop h (i + 1) rest
             (context_text @ chunk_label h i @ take 800 t @
                (if length t > 800 then str ''...'' else []) @ [10, 10])
             (total_chars + length (chunk_content h i (truncate_chunk t))) \<and>
         length (take 800 t) \<le> 800 \<and>
         (length t \<le> 800 \<longrightarrow> take 800 t = t)"
  using assms
  by (simp add: max_context_chars_def chunk_content_def truncate_chunk_def)

text \<open>Scenario D: 900 characters become the first 800 and the marker.\<close>

theorem included_chunk_truncated_witness:
  "c_text (text_chunk (replicate 900 97)) = Some (replicate 900 97) \<and>
   \<not> 0 + length (chunk_content False 1 (truncate_chunk (replicate 900 97))) > 3500 \<and>
   context_loop False 1 [text_chunk (replicate 900 97)] [] 0 =
     Inr (chunk_label False 1 @ replicate 800 97 @ str ''...'' @ [10, 10])"
proof -
  have h1: "c_text (text_chunk (replicate 900 97)) = Some (replicate 900 97)"
    by (simp add: text_chunk_def)
  have h2: "\<not> 0 + length (chunk_content False 1 (truncate_chunk (replicate 900 97))) > 3500"
    by (simp add: chunk_content_def chunk_label_def truncate_chunk_def str_def digits.simps)
  from included_chunk_truncated [OF h1 h2, of "[]" "[]"] h1 h2
  show ?thesis by simp
qed

section \<open>Citation formatting\<close>

subsection \<open>Excerpts\<close>

lemma strip_id:
  assumes "s = [] \<or> (\<not> isspace (hd s) \<and> \<not> isspace (last s))"
  shows "strip s = s"
proof (cases "s = []")
  case True
  then show ?thesis by (simp add: strip_def)
next
  case False
  with assms have h: "\<not> isspace (hd s)" and l: "\<not> isspace (last s)" by auto
  have 1: "dropWhile isspace s = s" using h False by (simp add: dropWhile_eq_self_iff)
  have "hd (rev s) = last s" using False by (simp add: hd_rev)
  then have 2: "dropWhile isspace (rev s) = rev s" using l by (simp add: dropWhile_eq_self_iff)
  show ?thesis by (simp add: strip_def 1 2)
qed

text \<open>
  C7 (as amended). The excerpt is the first 150 characters of the chunk text with leading
  and trailing whitespace stripped, followed by \<open>...\<close> exactly when the text is longer
  than 150 characters. Where those first 150 characters neither begin nor end with
  whitespace, this is the first 150 characters plus the marker for a longer text, and the
  text unchanged for a text of at most 150 characters.
\<close>

theorem excerpt_rule:
  "cit_excerpt (citation_of U grade subject idx chunk) =
     strip (take 150 (dict_get (c_text chunk) [])) @
     (if length (dict_get (c_text chunk) []) > 150 then str ''...'' else []) \<and>
   (take 150 (dict_get (c_text chunk) []) = [] \<or>
    (\<not> isspace (hd (take 150 (dict_get (c_text chunk) []))) \<and>
     \<not> isspace (last (take 150 (dict_get (c_text chunk) [])))) \<longrightarrow>
    cit_excerpt (citation_of U grade subject idx chunk) =
      (if length (dict_get (c_text chunk) []) > 150
       then take 150 (dict_get (c_text chunk) []) @ str ''...''
       else dict_get (c_text chunk) []))"
proof -
  define t where "t = dict_get (c_text chunk) []"
  have e: "cit_excerpt (citation_of U grade subject idx chunk) =
             strip (take 150 t) @ (if length t > 150 then str ''...'' else [])"
    by (simp add: citation_of_def excerpt_of_def Let_def t_def)
  have "cit_excerpt (citation_of U grade subject idx chunk) =
          (if length t > 150 then take 150 t @ str ''...'' else t)"
    if "take 150 t = [] \<or> (\<not> isspace (hd (take 150 t)) \<and> \<not> isspace (last (take 150 t)))"
    using strip_id [OF that] e by simp
  with e show ?thesis unfolding t_def by blast
qed

theorem excerpt_rule_witness:
  "\<not> isspace (hd (take 150 (str ''alpha''))) \<and> \<not> isspace (last (take 150 (str ''alpha''))) \<and>
   cit_excerpt (citation_of basic_latin 6 (str ''science'') 0 chunk_a) = str ''alpha''"
proof -
  have t: "dict_get (c_text chunk_a) [] = str ''alpha''"
    by (simp add: chunk_a_def dict_get_def)
  have h: "\<not> isspace (hd (take 150 (str ''alpha''))) \<and> \<not> isspace (last (take 150 (str ''alpha'')))"
    by (simp add: str_def isspace_def)
  have l: "\<not> length (str ''alpha'') > 150" by (simp add: str_def)
  note r = excerpt_rule [of basic_latin 6 "str ''science''" 0 chunk_a, unfolded t,
      THEN conjunct2, rule_format]
  have "cit_excerpt (citation_of basic_latin 6 (str ''science'') 0 chunk_a) =
          (if length (str ''alpha'') > 150 then take 150 (str ''alpha'') @ str ''...''
           else str ''alpha'')"
    by (rule r) (use h in blast)
  with h l show ?thesis by simp
qed

text \<open>
  The claim as stated fails on a text of two characters that begins with a space: the
  excerpt is not the text unchanged.
\<close>

theorem excerpt_unchanged_counterexample:
  "length (str '' a'') \<le> 150 \<and>
   cit_excerpt (citation_of basic_latin 6 (str ''science'') 0 (text_chunk (str '' a''))) \<noteq>
     str '' a''"
  by (simp add: citation_of_def excerpt_of_def Let_def text_chunk_def dict_get_def str_def
      strip_def isspace_def)

subsection \<open>Relevance\<close>

lemma two_powi_pos: "0 < (2::rat) powi e"
  by (simp add: zero_less_power_int)

lemma two_powi_mono: "m \<le> n \<Longrightarrow> (2::rat) powi m \<le> 2 powi n"
  by (rule power_int_increasing) simp_all

lemma two_powi_strict: "m < n \<Longrightarrow> (2::rat) powi m < 2 powi n"
  by (rule power_int_strict_increasing) simp_all

lemma two_powi_le_imp: "(2::rat) powi m < 2 powi n \<Longrightarrow> m < n"
  using two_powi_mono [of n m] by (cases "m < n") auto

lemma bitlen_powi_bounds:
  assumes "0 < n"
  shows "(2::rat) powi (bitlen n - 1) \<le> of_int n \<and> of_int n < (2::rat) powi (bitlen n)"
proof -
  have b: "1 \<le> bitlen n" using assms bitlen_eq_zero_iff [of n] bitlen_nonneg [of n] by linarith
  from bitlen_bounds [OF assms] have 1: "2 ^ nat (bitlen n - 1) \<le> n" and 2: "n < 2 ^ nat (bitlen n)"
    by auto
  have "(2::rat) powi (bitlen n - 1) = of_int (2 ^ nat (bitlen n - 1))"
    using b by (simp add: power_int_def)
  moreover have "(2::rat) powi (bitlen n) = of_int (2 ^ nat (bitlen n))"
    using b by (simp add: power_int_def)
  moreover have "(of_int (2 ^ nat (bitlen n - 1)) :: rat) \<le> of_int n" using 1 by (simp only: of_int_le_iff)
  moreover have "(of_int n :: rat) < of_int (2 ^ nat (bitlen n))" using 2 by (simp only: of_int_less_iff)
  ultimately show ?thesis by simp
qed

lemma binary_exponent_bounds:
  assumes "x \<noteq> 0"
  shows "2 powi (binary_exponent x) \<le> \<bar>x\<bar> \<and> \<bar>x\<bar> < 2 powi (binary_exponent x + 1)"
proof -
  obtain p q where pq: "quotient_of \<bar>x\<bar> = (p, q)" by (cases "quotient_of \<bar>x\<bar>")
  have q: "0 < q" using pq by (rule quotient_of_denom_pos)
  have a: "\<bar>x\<bar> = of_int p / of_int q" using pq by (rule quotient_of_div)
  have "0 < \<bar>x\<bar>" using assms by simp
  then have p: "0 < p" using a q by (simp add: zero_less_divide_iff)
  define e where "e = bitlen p - bitlen q"
  from bitlen_powi_bounds [OF p] have p1: "(2::rat) powi (bitlen p - 1) \<le> of_int p"
    and p2: "of_int p < (2::rat) powi (bitlen p)"
    by auto
  from bitlen_powi_bounds [OF q] have q1: "(2::rat) powi (bitlen q - 1) \<le> of_int q"
    and q2: "of_int q < (2::rat) powi (bitlen q)"
    by auto
  have qpos: "(0::rat) < of_int q" and ppos: "(0::rat) < of_int p" using q p by simp_all
  have "(2::rat) powi (e - 1) = 2 powi (bitlen p - 1) / 2 powi (bitlen q)"
    unfolding e_def using power_int_diff [of "2::rat" "bitlen p - 1" "bitlen q"] by (simp add: algebra_simps)
  also have "\<dots> \<le> of_int p / of_int q"
    by (rule frac_le) (use p1 q2 q p in auto)
  finally have lo: "(2::rat) powi (e - 1) \<le> \<bar>x\<bar>" by (simp add: a)
  have "of_int p / of_int q < (2::rat) powi (bitlen p) / 2 powi (bitlen q - 1)"
    by (rule frac_less) (use p2 q1 p two_powi_pos [of "bitlen q - 1"] in auto)
  also have "\<dots> = (2::rat) powi (e + 1)"
    unfolding e_def using power_int_diff [of "2::rat" "bitlen p" "bitlen q - 1"] by (simp add: algebra_simps)
  finally have hi: "\<bar>x\<bar> < (2::rat) powi (e + 1)" by (simp add: a)
  show ?thesis
    using lo hi by (auto simp: binary_exponent_def pq e_def Let_def)
qed


lemma round_half_even_cases:
  "round_half_even x = \<lfloor>x\<rfloor> \<or> round_half_even x = \<lfloor>x\<rfloor> + 1"
  by (simp add: round_half_even_def Let_def)

lemma round_half_even_mono: "x \<le> y \<Longrightarrow> round_half_even x \<le> round_half_even y"
proof -
  assume xy: "x \<le> y"
  have fl: "\<lfloor>x\<rfloor> \<le> \<lfloor>y\<rfloor>" using xy by (rule floor_mono)
  show ?thesis
  proof (cases "\<lfloor>x\<rfloor> = \<lfloor>y\<rfloor>")
    case True
    then show ?thesis using xy by (auto simp: round_half_even_def Let_def)
  next
    case False
    then have "\<lfloor>x\<rfloor> + 1 \<le> \<lfloor>y\<rfloor>" using fl by simp
    moreover have "round_half_even x \<le> \<lfloor>x\<rfloor> + 1" using round_half_even_cases [of x] by auto
    moreover have "\<lfloor>y\<rfloor> \<le> round_half_even y" using round_half_even_cases [of y] by auto
    ultimately show ?thesis by linarith
  qed
qed

lemma round_half_even_int: "round_half_even (of_int n) = n"
  by (simp add: round_half_even_def Let_def)

lemma to_double_quantum:
  "to_double x = of_int (round_half_even (x / quantum x)) * quantum x"
  by (simp add: to_double_def round_half_even_def Let_def)

lemma quantum_pos: "0 < quantum x"
  by (simp add: quantum_def two_powi_pos)

lemma to_double_nonneg: "0 \<le> x \<Longrightarrow> 0 \<le> to_double x"
proof -
  assume "0 \<le> x"
  then have "of_int 0 \<le> x / quantum x" using quantum_pos [of x] by simp
  from round_half_even_mono [OF this] have "0 \<le> round_half_even (x / quantum x)"
    by (simp only: round_half_even_int)
  then show ?thesis using quantum_pos [of x] by (simp add: to_double_quantum)
qed

lemma to_double_nonpos: "x \<le> 0 \<Longrightarrow> to_double x \<le> 0"
proof -
  assume "x \<le> 0"
  then have "x / quantum x \<le> of_int 0" using quantum_pos [of x] by (simp add: divide_le_0_iff)
  from round_half_even_mono [OF this] have "round_half_even (x / quantum x) \<le> 0"
    by (simp only: round_half_even_int)
  then show ?thesis using quantum_pos [of x] by (simp add: to_double_quantum mult_le_0_iff)
qed


lemma double_exponent_upper:
  assumes "x \<noteq> 0"
  shows "\<bar>x\<bar> < 2 powi (double_exponent x + 1)"
proof -
  have "\<bar>x\<bar> < 2 powi (binary_exponent x + 1)"
    using binary_exponent_bounds [OF assms] by simp
  also have "\<dots> \<le> 2 powi (double_exponent x + 1)"
    by (rule two_powi_mono) (simp add: double_exponent_def)
  finally show ?thesis .
qed

lemma double_exponent_lower:
  assumes "x \<noteq> 0" and "- 1022 < double_exponent x"
  shows "2 powi (double_exponent x) \<le> \<bar>x\<bar>"
proof -
  have "double_exponent x = binary_exponent x"
    using assms(2) by (simp add: double_exponent_def max_def split: if_splits)
  then show ?thesis using binary_exponent_bounds [OF assms(1)] by simp
qed

lemma double_exponent_mono:
  assumes "x \<noteq> 0" and "\<bar>x\<bar> \<le> \<bar>y\<bar>"
  shows "double_exponent x \<le> double_exponent y"
proof -
  have y: "y \<noteq> 0" using assms by auto
  have "2 powi (binary_exponent x) \<le> \<bar>x\<bar>" using binary_exponent_bounds [OF assms(1)] by simp
  also have "\<dots> \<le> \<bar>y\<bar>" by (rule assms(2))
  also have "\<dots> < 2 powi (binary_exponent y + 1)" using binary_exponent_bounds [OF y] by simp
  finally have "binary_exponent x < binary_exponent y + 1" by (rule two_powi_le_imp)
  then show ?thesis by (simp add: double_exponent_def)
qed

lemma quantum_scale: "2 powi (double_exponent x + k) = of_int (2 ^ nat (k + 52)) * quantum x"
  if "- 52 \<le> k" for k
proof -
  have "(2::rat) powi (double_exponent x + k) = 2 powi (k + 52) * 2 powi (double_exponent x - 52)"
    using power_int_add [of "2::rat" "k + 52" "double_exponent x - 52"] by (simp add: algebra_simps)
  also have "(2::rat) powi (k + 52) = of_int (2 ^ nat (k + 52))"
    using that by (simp add: power_int_def)
  finally show ?thesis by (simp add: quantum_def)
qed

lemma to_double_upper:
  assumes "0 < x"
  shows "to_double x \<le> 2 powi (double_exponent x + 1)"
proof -
  have x: "x \<noteq> 0" using assms by simp
  have "x \<le> 2 powi (double_exponent x + 1)" using double_exponent_upper [OF x] assms by simp
  also have "\<dots> = of_int (2 ^ 53) * quantum x" using quantum_scale [of 1 x] by simp
  finally have "x / quantum x \<le> of_int (2 ^ 53)"
    using quantum_pos [of x] by (simp add: pos_divide_le_eq)
  from round_half_even_mono [OF this] have "round_half_even (x / quantum x) \<le> 2 ^ 53"
    by (simp only: round_half_even_int)
  then have "(of_int (round_half_even (x / quantum x)) :: rat) \<le> of_int (2 ^ 53)"
    by (simp only: of_int_le_iff)
  then have "to_double x \<le> of_int (2 ^ 53) * quantum x"
    using quantum_pos [of x] by (simp add: to_double_quantum)
  then show ?thesis using quantum_scale [of 1 x] by simp
qed

lemma to_double_lower:
  assumes "0 < x" and "- 1022 < double_exponent x"
  shows "2 powi (double_exponent x) \<le> to_double x"
proof -
  have x: "x \<noteq> 0" using assms by simp
  have "of_int (2 ^ 52) * quantum x = 2 powi (double_exponent x)"
    using quantum_scale [of 0 x] by simp
  also have "\<dots> \<le> x" using double_exponent_lower [OF x assms(2)] assms(1) by simp
  finally have "of_int (2 ^ 52) \<le> x / quantum x"
    using quantum_pos [of x] by (simp add: pos_le_divide_eq)
  from round_half_even_mono [OF this] have "2 ^ 52 \<le> round_half_even (x / quantum x)"
    by (simp only: round_half_even_int)
  then have "(of_int (2 ^ 52) :: rat) \<le> of_int (round_half_even (x / quantum x))"
    by (simp only: of_int_le_iff)
  then have "of_int (2 ^ 52) * quantum x \<le> to_double x"
    using quantum_pos [of x] by (simp add: to_double_quantum)
  then show ?thesis using quantum_scale [of 0 x] by simp
qed

lemma to_double_lower_neg:
  assumes "x < 0"
  shows "- (2 powi (double_exponent x + 1)) \<le> to_double x"
proof -
  have x: "x \<noteq> 0" using assms by simp
  have "- (of_int (2 ^ 53) * quantum x) = - (2 powi (double_exponent x + 1))"
    using quantum_scale [of 1 x] by simp
  also have "\<dots> \<le> x" using double_exponent_upper [OF x] assms by simp
  finally have "of_int (- (2 ^ 53)) \<le> x / quantum x"
    using quantum_pos [of x] by (simp add: pos_le_divide_eq)
  from round_half_even_mono [OF this] have "- (2 ^ 53) \<le> round_half_even (x / quantum x)"
    by (simp only: round_half_even_int)
  then have "(of_int (- (2 ^ 53)) :: rat) \<le> of_int (round_half_even (x / quantum x))"
    by (simp only: of_int_le_iff)
  then have "of_int (- (2 ^ 53)) * quantum x \<le>
             of_int (round_half_even (x / quantum x)) * quantum x"
    by (rule mult_right_mono) (use quantum_pos [of x] in simp)
  then have "of_int (- (2 ^ 53)) * quantum x \<le> to_double x"
    by (simp only: to_double_quantum)
  then show ?thesis using quantum_scale [of 1 x] by simp
qed

lemma to_double_upper_neg:
  assumes "x < 0" and "- 1022 < double_exponent x"
  shows "to_double x \<le> - (2 powi (double_exponent x))"
proof -
  have x: "x \<noteq> 0" using assms by simp
  have "x \<le> - (2 powi (double_exponent x))"
    using double_exponent_lower [OF x assms(2)] assms(1) by simp
  also have "\<dots> = of_int (- (2 ^ 52)) * quantum x" using quantum_scale [of 0 x] by simp
  finally have "x / quantum x \<le> of_int (- (2 ^ 52))"
    using quantum_pos [of x] by (simp add: pos_divide_le_eq)
  from round_half_even_mono [OF this] have "round_half_even (x / quantum x) \<le> - (2 ^ 52)"
    by (simp only: round_half_even_int)
  then have "(of_int (round_half_even (x / quantum x)) :: rat) \<le> of_int (- (2 ^ 52))"
    by (simp only: of_int_le_iff)
  then have "of_int (round_half_even (x / quantum x)) * quantum x \<le>
             of_int (- (2 ^ 52)) * quantum x"
    by (rule mult_right_mono) (use quantum_pos [of x] in simp)
  then have "to_double x \<le> of_int (- (2 ^ 52)) * quantum x"
    by (simp only: to_double_quantum)
  then show ?thesis using quantum_scale [of 0 x] by simp
qed

lemma to_double_same_quantum:
  assumes "x \<le> y" and "quantum x = quantum y"
  shows "to_double x \<le> to_double y"
proof -
  have "x / quantum y \<le> y / quantum y"
    using assms(1) quantum_pos [of y] by (simp add: divide_right_mono)
  from round_half_even_mono [OF this]
  have "(of_int (round_half_even (x / quantum y)) :: rat) \<le> of_int (round_half_even (y / quantum y))"
    by (simp only: of_int_le_iff)
  then show ?thesis
    using quantum_pos [of y] by (simp add: to_double_quantum assms(2))
qed

lemma to_double_mono:
  assumes "x \<le> y"
  shows "to_double x \<le> to_double y"
proof -
  consider "x \<le> 0" "0 \<le> y" | "0 < x" | "y < 0" using assms by linarith
  then show ?thesis
  proof cases
    case 1
    then show ?thesis using to_double_nonpos [of x] to_double_nonneg [of y] by linarith
  next
    case 2
    then have y: "0 < y" and x0: "x \<noteq> 0" using assms by auto
    have le: "double_exponent x \<le> double_exponent y"
      by (rule double_exponent_mono) (use 2 y assms in auto)
    show ?thesis
    proof (cases "double_exponent x = double_exponent y")
      case True
      then have "quantum x = quantum y" by (simp add: quantum_def)
      with assms show ?thesis by (rule to_double_same_quantum)
    next
      case False
      with le have lt: "double_exponent x < double_exponent y" by simp
      have "- 1022 \<le> double_exponent x" by (simp add: double_exponent_def)
      with lt have big: "- 1022 < double_exponent y" by simp
      have "to_double x \<le> 2 powi (double_exponent x + 1)" by (rule to_double_upper [OF 2])
      also have "\<dots> \<le> 2 powi (double_exponent y)" by (rule two_powi_mono) (use lt in simp)
      also have "\<dots> \<le> to_double y" by (rule to_double_lower [OF y big])
      finally show ?thesis .
    qed
  next
    case 3
    then have x: "x < 0" and y0: "y \<noteq> 0" using assms by auto
    have le: "double_exponent y \<le> double_exponent x"
      by (rule double_exponent_mono) (use 3 x assms in auto)
    show ?thesis
    proof (cases "double_exponent x = double_exponent y")
      case True
      then have "quantum x = quantum y" by (simp add: quantum_def)
      with assms show ?thesis by (rule to_double_same_quantum)
    next
      case False
      with le have lt: "double_exponent y < double_exponent x" by simp
      have "- 1022 \<le> double_exponent y" by (simp add: double_exponent_def)
      with lt have big: "- 1022 < double_exponent x" by simp
      have "to_double x \<le> - (2 powi (double_exponent x))" by (rule to_double_upper_neg [OF x big])
      also have "\<dots> \<le> - (2 powi (double_exponent y + 1))"
        using two_powi_mono [of "double_exponent y + 1" "double_exponent x"] lt by simp
      also have "\<dots> \<le> to_double y" by (rule to_double_lower_neg [OF 3])
      finally show ?thesis .
    qed
  qed
qed

lemma round3_mono: "x \<le> y \<Longrightarrow> round3 x \<le> round3 y"
  unfolding round3_def
  by (simp add: round_half_even_mono divide_right_mono)

lemma round_half_even_neg:
  assumes "x < - (1 / 2)" shows "round_half_even x \<le> - 1"
proof (cases "\<lfloor>x\<rfloor> \<le> - 2")
  case True
  have "round_half_even x \<le> \<lfloor>x\<rfloor> + 1" using round_half_even_cases [of x] by auto
  with True show ?thesis by linarith
next
  case False
  have "\<lfloor>x\<rfloor> \<le> - 1" using assms by (simp add: floor_le_iff)
  with False have f: "\<lfloor>x\<rfloor> = - 1" by linarith
  then have "x - of_int \<lfloor>x\<rfloor> < 1 / 2" using assms by simp
  then show ?thesis using f by (simp add: round_half_even_def Let_def)
qed

lemma relevance_mono: "d1 \<le> d2 \<Longrightarrow> relevance_of_distance d2 \<le> relevance_of_distance d1"
  unfolding relevance_of_distance_def float_round3_def float_sub_def
  by (intro to_double_mono round3_mono) simp

lemma double_values:
  "to_double 1 = 1" "to_double (- 1) = - 1" "round3 1 = 1" "round3 (- 1) = - 1" "round3 0 = 0"
  "to_double (- (1 / 2000)) < - (1 / 2000)" "to_double (- (1 / 1000)) < 0"
  by code_simp+

lemma relevance_range:
  assumes "0 \<le> d" and "d \<le> 2"
  shows "- 1 \<le> relevance_of_distance d \<and> relevance_of_distance d \<le> 1"
proof -
  have "relevance_of_distance 2 \<le> relevance_of_distance d"
    and "relevance_of_distance d \<le> relevance_of_distance 0"
    using assms by (simp_all add: relevance_mono)
  moreover have "relevance_of_distance 2 = - 1" "relevance_of_distance 0 = 1"
    by (simp_all add: relevance_of_distance_def float_round3_def float_sub_def double_values)
  ultimately show ?thesis by simp
qed

lemma relevance_nonpositive:
  assumes "1 \<le> d"
  shows "relevance_of_distance d \<le> 0"
proof -
  have "relevance_of_distance d \<le> relevance_of_distance 1"
    using assms by (rule relevance_mono)
  also have "relevance_of_distance 1 = 0"
    by (simp add: relevance_of_distance_def float_round3_def float_sub_def to_double_def
        double_values)
  finally show ?thesis .
qed

lemma relevance_negative:
  assumes "1 + 1 / 2000 < d"
  shows "relevance_of_distance d < 0"
proof -
  have "1 - d \<le> - (1 / 2000)" using assms by simp
  then have "to_double (1 - d) \<le> to_double (- (1 / 2000))" by (rule to_double_mono)
  also have "\<dots> < - (1 / 2000)" by (rule double_values)
  finally have "to_double (1 - d) * 1000 < - (1 / 2)" by simp
  from round_half_even_neg [OF this]
  have "rat_of_int (round_half_even (to_double (1 - d) * 1000)) \<le> - 1"
    by (metis of_int_le_iff of_int_minus of_int_1)
  then have "round3 (to_double (1 - d)) \<le> - (1 / 1000)"
    by (simp add: round3_def)
  then have "to_double (round3 (to_double (1 - d))) \<le> to_double (- (1 / 1000))"
    by (rule to_double_mono)
  also have "\<dots> < 0" by (rule double_values)
  finally show ?thesis
    by (simp add: relevance_of_distance_def float_round3_def float_sub_def)
qed

lemma round_half_even_error: "\<bar>of_int (round_half_even x) - x\<bar> \<le> 1 / 2"
proof -
  have "of_int \<lfloor>x\<rfloor> \<le> x" "x < of_int \<lfloor>x\<rfloor> + 1" by linarith+
  then show ?thesis
    by (auto simp: round_half_even_def Let_def abs_le_iff)
qed

lemma to_double_error: "\<bar>to_double x - x\<bar> \<le> quantum x / 2"
proof -
  let ?q = "quantum x"
  have q: "0 < ?q" by (rule quantum_pos)
  have "\<bar>of_int (round_half_even (x / ?q)) - x / ?q\<bar> * ?q \<le> 1 / 2 * ?q"
    by (rule mult_right_mono [OF round_half_even_error]) (use q in simp)
  moreover have "of_int (round_half_even (x / ?q)) * ?q - x =
      (of_int (round_half_even (x / ?q)) - x / ?q) * ?q"
    using q by (simp add: field_simps)
  then have "\<bar>of_int (round_half_even (x / ?q)) * ?q - x\<bar> =
      \<bar>of_int (round_half_even (x / ?q)) - x / ?q\<bar> * ?q"
    using q by (simp only: abs_mult abs_of_pos)
  ultimately show ?thesis by (simp add: to_double_quantum)
qed

lemma exponent_values: "double_exponent 1 = 0" "quantum 0 \<le> 1 / 2 ^ 52"
  by code_simp+

lemma quantum_unit:
  assumes "\<bar>x\<bar> \<le> 1"
  shows "quantum x \<le> 1 / 2 ^ 52"
proof (cases "x = 0")
  case True
  then show ?thesis using exponent_values(2) by simp
next
  case False
  from double_exponent_mono [OF False, of 1] assms have "double_exponent x \<le> 0"
    by (simp add: exponent_values)
  then have "(2::rat) powi (double_exponent x - 52) \<le> 2 powi (- 52)"
    by (intro two_powi_mono) simp
  then show ?thesis by (simp add: quantum_def power_int_minus inverse_eq_divide)
qed

lemma round3_error: "\<bar>round3 x - x\<bar> \<le> 1 / 2000"
  using round_half_even_error [of "x * 1000"] by (simp add: round3_def abs_le_iff field_simps)

lemma relevance_error:
  assumes "0 \<le> d" and "d \<le> 2"
  shows "\<bar>relevance_of_distance d - (1 - d)\<bar> \<le> 1 / 2000 + 1 / 2 ^ 52"
proof -
  let ?a = "to_double (1 - d)"
  let ?b = "round3 ?a"
  have x: "\<bar>1 - d\<bar> \<le> 1" using assms by (simp add: abs_le_iff)
  have e1: "\<bar>?a - (1 - d)\<bar> \<le> 1 / 2 ^ 53"
    using to_double_error [of "1 - d"] quantum_unit [OF x] by simp
  have "to_double (- 1) \<le> ?a" "?a \<le> to_double 1"
    using assms by (simp_all add: to_double_mono)
  then have a: "- 1 \<le> ?a" "?a \<le> 1" by (simp_all add: double_values)
  have "round3 (- 1) \<le> ?b" "?b \<le> round3 1"
    using a by (simp_all add: round3_mono)
  then have b: "\<bar>?b\<bar> \<le> 1" by (simp add: double_values abs_le_iff)
  have e2: "\<bar>?b - ?a\<bar> \<le> 1 / 2000" by (rule round3_error)
  have e3: "\<bar>to_double ?b - ?b\<bar> \<le> 1 / 2 ^ 53"
    using to_double_error [of ?b] quantum_unit [OF b] by simp
  have "relevance_of_distance d = to_double ?b"
    by (simp add: relevance_of_distance_def float_round3_def float_sub_def)
  moreover have "(1::rat) / 2 ^ 53 + 1 / 2 ^ 53 = 1 / 2 ^ 52" by simp
  ultimately show ?thesis using e1 e2 e3 by linarith
qed

text \<open>
  C3 (as amended). The relevance of a citation is \<open>round(1 - distance, 3)\<close> in float
  arithmetic, with 0.5 for a missing distance. For distances in [0, 2] it differs from
  \<open>1 - distance\<close> by at most 0.0005 and the rounding error of the floats, it never
  increases when the distance grows and it lies in [-1, 1], without being clamped to
  [0, 1]: a distance of at least 1 gives a relevance of at most 0, a distance above 1.0005
  gives a negative relevance, and distance 2 gives -1.
\<close>

theorem relevance_rule:
  "cit_relevance (citation_of U grade subject idx chunk) =
     to_double (round3 (to_double (1 - dict_get (c_distance chunk) (1 / 2)))) \<and>
   (0 \<le> d \<and> d \<le> 2 \<longrightarrow> \<bar>relevance_of_distance d - (1 - d)\<bar> \<le> 1 / 2000 + 1 / 2 ^ 52) \<and>
   (0 \<le> d1 \<and> d1 \<le> d2 \<and> d2 \<le> 2 \<longrightarrow> relevance_of_distance d2 \<le> relevance_of_distance d1) \<and>
   (0 \<le> d \<and> d \<le> 2 \<longrightarrow> - 1 \<le> relevance_of_distance d \<and> relevance_of_distance d \<le> 1) \<and>
   (1 \<le> d \<and> d \<le> 2 \<longrightarrow> relevance_of_distance d \<le> 0) \<and>
   (1 + 1 / 2000 < d \<and> d \<le> 2 \<longrightarrow> relevance_of_distance d < 0) \<and>
   relevance_of_distance 2 = - 1"
proof -
  have "cit_relevance (citation_of U grade subject idx chunk) =
          to_double (round3 (to_double (1 - dict_get (c_distance chunk) (1 / 2))))"
    by (simp add: citation_of_def Let_def relevance_of_distance_def float_round3_def
        float_sub_def)
  moreover have "relevance_of_distance 2 = - 1"
    by (simp add: relevance_of_distance_def float_round3_def float_sub_def double_values)
  ultimately show ?thesis
    using relevance_error [of d] relevance_mono [of d1 d2] relevance_range [of d]
      relevance_nonpositive [of d] relevance_negative [of d]
    by blast
qed

text \<open>
  Distances 0.25 and 1.5 give 0.75 and -0.5; distance 2 gives -1.
\<close>

theorem relevance_rule_witness:
  "(0 :: rat) \<le> 1 / 4 \<and> (1 / 4 :: rat) \<le> 3 / 2 \<and> (3 / 2 :: rat) \<le> 2 \<and>
   relevance_of_distance (3 / 2) \<le> relevance_of_distance (1 / 4) \<and>
   relevance_of_distance (1 / 4) = 3 / 4 \<and> relevance_of_distance (3 / 2) = - (1 / 2) \<and>
   (1 + 1 / 2000 :: rat) < 2 \<and> relevance_of_distance 2 < 0"
proof -
  have e: "relevance_of_distance (1 / 4) = 3 / 4" "relevance_of_distance (3 / 2) = - (1 / 2)"
    by code_simp+
  from relevance_rule [where U = basic_latin and grade = 6 and subject = "[]" and idx = 0
      and chunk = chunk_a and ?d1.0 = "1 / 4" and ?d2.0 = "3 / 2" and d = 2] e
  show ?thesis by simp
qed

text \<open>
  The claim as stated fails just above distance 1. The float \<open>1.0001\<close> is the double
  4504049987333233 / 2^52; the subtraction gives a value of about -0.0001, which rounds
  to zero, and zero is not negative (Python prints \<open>-0.0\<close>, and \<open>-0.0 < 0\<close> is false).
\<close>

theorem relevance_negative_counterexample:
  "to_double (10001 / 10000) = 4504049987333233 / 4503599627370496 \<and>
   (1 :: rat) < 4504049987333233 / 4503599627370496 \<and>
   \<not> cit_relevance (citation_of basic_latin 6 (str ''science'') 0
        \<lparr>c_chunk_id = None, c_text = None, c_metadata = None,
         c_distance = Some (4504049987333233 / 4503599627370496)\<rparr>) < 0"
proof -
  have "to_double (10001 / 10000) = 4504049987333233 / 4503599627370496" by code_simp
  moreover have "relevance_of_distance (4504049987333233 / 4503599627370496) = 0" by code_simp
  ultimately show ?thesis by (simp add: citation_of_def Let_def dict_get_def)
qed

subsection \<open>Ranking\<close>

lemma sort_reverse_mset: "mset (sort_reverse key xs) = mset xs"
  by (simp add: sort_reverse_def)

lemma sort_reverse_length: "length (sort_reverse key xs) = length xs"
  by (simp add: sort_reverse_def)

lemma sort_reverse_sorted: "sorted_wrt (\<lambda>a b. key a \<ge> key b) (sort_reverse key xs)"
proof -
  have "sorted (map (\<lambda>x. - key x) (sort_reverse key xs))"
    unfolding sort_reverse_def by (rule sorted_sort_key)
  then show ?thesis by (simp add: sorted_map)
qed

lemma sort_reverse_stable:
  "filter (\<lambda>x. key x = r) (sort_reverse key xs) = filter (\<lambda>x. key x = r) xs"
  using sort_key_stable [of "\<lambda>x. - key x" "- r" xs]
  by (simp add: sort_reverse_def)

lemma sorted_wrt_filter_pairs:
  "sorted_wrt R (filter P xs) \<Longrightarrow> sorted_wrt (\<lambda>a b. P a \<and> P b \<longrightarrow> R a b) xs"
  by (induction xs) (auto split: if_splits)

lemma enumerate_map_length: "length (enumerate_map f xs) = length xs"
  by (simp add: enumerate_map_def)

lemma enumerate_map_nth: "i < length xs \<Longrightarrow> enumerate_map f xs ! i = f i (xs ! i)"
  by (simp add: enumerate_map_def)

lemma pre_ids:
  "map cit_id (enumerate_map (citation_of U grade subject) chunks) = [1..<Suc (length chunks)]"
  by (rule nth_equalityI)
    (simp_all del: upt_Suc add: enumerate_map_length enumerate_map_nth citation_of_def Let_def)

lemma pre_elem:
  assumes "c \<in> set (enumerate_map (citation_of U grade subject) chunks)"
  shows "cit_id c - 1 < length chunks \<and> c = citation_of U grade subject (cit_id c - 1) (chunks ! (cit_id c - 1))"
proof -
  from assms obtain i where i: "i < length chunks" and c: "c = citation_of U grade subject i (chunks ! i)"
    by (auto simp: in_set_conv_nth enumerate_map_length enumerate_map_nth)
  have "cit_id c = i + 1" by (simp add: c citation_of_def Let_def)
  then show ?thesis using i c by simp
qed

lemma out_nth:
  assumes "j < length chunks"
  shows "format_citations U chunks grade subject ! j =
    (sort_reverse cit_relevance (enumerate_map (citation_of U grade subject) chunks) ! j)\<lparr>cit_id := j + 1\<rparr>"
  using assms
  by (simp add: format_citations_def Let_def enumerate_map_nth sort_reverse_length enumerate_map_length)

lemma out_length: "length (format_citations U chunks grade subject) = length chunks"
  by (simp add: format_citations_def Let_def sort_reverse_length enumerate_map_length)

lemma out_ids: "map cit_id (format_citations U chunks grade subject) = [1..<Suc (length chunks)]"
  by (rule nth_equalityI) (simp_all del: upt_Suc add: out_length out_nth)

lemma out_sorted: "sorted_wrt (\<ge>) (map cit_relevance (format_citations U chunks grade subject))"
proof -
  let ?s = "sort_reverse cit_relevance (enumerate_map (citation_of U grade subject) chunks)"
  have "map cit_relevance (format_citations U chunks grade subject) = map cit_relevance ?s"
    by (rule nth_equalityI) (simp_all add: out_length out_nth sort_reverse_length enumerate_map_length)
  moreover have "sorted_wrt (\<ge>) (map cit_relevance ?s)"
    using sort_reverse_sorted [of cit_relevance] by (simp add: sorted_wrt_map)
  ultimately show ?thesis by simp
qed

lemma pre_sorted_ids:
  "sorted_wrt (\<lambda>a b. cit_id a < cit_id b) (enumerate_map (citation_of U grade subject) chunks)"
proof -
  have "sorted_wrt (<) (map cit_id (enumerate_map (citation_of U grade subject) chunks))"
    unfolding pre_ids by (simp del: upt_Suc)
  then show ?thesis by (simp add: sorted_wrt_map)
qed

lemma sorted_ids_positive:
  assumes "c \<in> set (enumerate_map (citation_of U grade subject) chunks)"
  shows "1 \<le> cit_id c"
proof -
  from assms have "cit_id c \<in> set (map cit_id (enumerate_map (citation_of U grade subject) chunks))"
    by simp
  then show ?thesis unfolding pre_ids by (simp del: upt_Suc)
qed

lemma stable_order:
  fixes chunks :: "chunk list" and U :: pylib and grade :: int and subject :: pystr
  defines "s \<equiv> sort_reverse cit_relevance (enumerate_map (citation_of U grade subject) chunks)"
  assumes "i < j" and "j < length chunks" and "cit_relevance (s ! i) = cit_relevance (s ! j)"
  shows "cit_id (s ! i) - 1 < cit_id (s ! j) - 1"
proof -
  let ?pre = "enumerate_map (citation_of U grade subject) chunks"
  let ?P = "\<lambda>c. cit_relevance c = cit_relevance (s ! i)"
  have len: "length s = length chunks"
    by (simp add: s_def sort_reverse_length enumerate_map_length)
  have "sorted_wrt (\<lambda>a b. cit_id a < cit_id b) (filter ?P ?pre)"
    using pre_sorted_ids by (rule sorted_wrt_filter)
  then have "sorted_wrt (\<lambda>a b. cit_id a < cit_id b) (filter ?P s)"
    by (simp add: s_def sort_reverse_stable)
  then have "sorted_wrt (\<lambda>a b. ?P a \<and> ?P b \<longrightarrow> cit_id a < cit_id b) s"
    by (rule sorted_wrt_filter_pairs)
  then have "?P (s ! i) \<and> ?P (s ! j) \<longrightarrow> cit_id (s ! i) < cit_id (s ! j)"
    using assms(2,3) len by (simp add: sorted_wrt_iff_nth_less)
  then have lt: "cit_id (s ! i) < cit_id (s ! j)" using assms(4) by simp
  have "s ! i \<in> set s" using assms(2,3) len by simp
  then have "s ! i \<in> set ?pre"
    using sort_reverse_mset [of cit_relevance ?pre] by (metis s_def set_mset_mset)
  then have "1 \<le> cit_id (s ! i)" by (rule sorted_ids_positive)
  with lt show ?thesis by simp
qed


lemma neg_relevance_sorted:
  "map (\<lambda>c. - cit_relevance c) (format_citations U chunks grade subject) =
   sort (map (\<lambda>chunk. - relevance_of_distance (dict_get (c_distance chunk) (1 / 2))) chunks)"
proof -
  let ?pre = "enumerate_map (citation_of U grade subject) chunks"
  let ?f = "\<lambda>c. - cit_relevance c"
  let ?g = "\<lambda>chunk. - relevance_of_distance (dict_get (c_distance chunk) (1 / 2))"
  have pre: "map ?f ?pre = map ?g chunks"
    by (rule nth_equalityI)
       (simp_all add: enumerate_map_length enumerate_map_nth citation_of_def Let_def)
  have out: "map ?f (format_citations U chunks grade subject) = map ?f (sort_key ?f ?pre)"
    by (rule nth_equalityI)
       (simp_all add: out_length out_nth sort_reverse_def enumerate_map_length)
  have "mset (map ?f (sort_key ?f ?pre)) = mset (map ?g chunks)"
    using pre by (metis mset_map mset_sort)
  moreover have "sorted (map ?f (sort_key ?f ?pre))" by (rule sorted_sort_key)
  ultimately have "sort (map ?g chunks) = map ?f (sort_key ?f ?pre)"
    by (rule properties_for_sort)
  with out show ?thesis by simp
qed

lemma relevance_order_independent:
  assumes "mset chunks' = mset chunks"
  shows "map cit_relevance (format_citations U chunks' grade subject) =
         map cit_relevance (format_citations U chunks grade subject)"
proof -
  let ?g = "\<lambda>chunk. - relevance_of_distance (dict_get (c_distance chunk) (1 / 2))"
  have "mset (map ?g chunks') = mset (map ?g chunks)" using assms by simp
  then have "sort (map ?g chunks') = sort (map ?g chunks)"
    by (metis properties_for_sort sorted_sort mset_sort)
  then have "map (\<lambda>c. - cit_relevance c) (format_citations U chunks' grade subject) =
             map (\<lambda>c. - cit_relevance c) (format_citations U chunks grade subject)"
    by (simp only: neg_relevance_sorted)
  then have "map uminus (map cit_relevance (format_citations U chunks' grade subject)) =
             map uminus (map cit_relevance (format_citations U chunks grade subject))"
    by (simp add: comp_def)
  then show ?thesis by (simp add: inj_map_eq_map [OF inj_uminus] del: map_map)
qed

text \<open>
  C2. For \<open>n\<close> retrieved chunks the formatter emits \<open>n\<close> citations whose ids are
  \<open>1..n\<close> in output order and whose relevance never increases along the list. The
  output is a rearrangement \<open>p\<close> of the retrieval positions: citation \<open>j\<close> is the one
  built from chunk \<open>p ! j\<close>, renumbered, and of two citations with equal relevance the
  one retrieved first comes first. The sequence of relevance values does not depend on
  the order in which the chunks were retrieved.
\<close>

theorem citations_ranked_stably:
  "length (format_citations U chunks grade subject) = length chunks \<and>
   map cit_id (format_citations U chunks grade subject) = [1..<Suc (length chunks)] \<and>
   sorted_wrt (\<ge>) (map cit_relevance (format_citations U chunks grade subject)) \<and>
   (\<exists>p. mset p = mset [0..<length chunks] \<and>
        (\<forall>j<length chunks.
           format_citations U chunks grade subject ! j =
             (citation_of U grade subject (p ! j) (chunks ! (p ! j)))\<lparr>cit_id := j + 1\<rparr>) \<and>
        (\<forall>i j. i < j \<and> j < length chunks \<and>
               cit_relevance (format_citations U chunks grade subject ! i) =
               cit_relevance (format_citations U chunks grade subject ! j) \<longrightarrow>
               p ! i < p ! j)) \<and>
   (mset chunks' = mset chunks \<longrightarrow>
      map cit_relevance (format_citations U chunks' grade subject) =
      map cit_relevance (format_citations U chunks grade subject))"
proof -
  let ?pre = "enumerate_map (citation_of U grade subject) chunks"
  let ?s = "sort_reverse cit_relevance ?pre"
  let ?p = "map (\<lambda>c. cit_id c - 1) ?s"
  have len: "length ?s = length chunks"
    by (simp add: sort_reverse_length enumerate_map_length)
  have "mset ?p = image_mset (\<lambda>c. cit_id c - 1) (mset ?pre)"
    by (simp add: sort_reverse_mset)
  also have "\<dots> = mset (map (\<lambda>n. n - 1) (map cit_id ?pre))"
    by (simp add: comp_def)
  also have "\<dots> = mset (map (\<lambda>n. n - 1) (map Suc [0..<length chunks]))"
    unfolding pre_ids by (simp only: map_Suc_upt One_nat_def)
  also have "\<dots> = mset [0..<length chunks]"
    by (simp add: comp_def)
  finally have perm: "mset ?p = mset [0..<length chunks]" .
  have elems: "format_citations U chunks grade subject ! j =
      (citation_of U grade subject (?p ! j) (chunks ! (?p ! j)))\<lparr>cit_id := j + 1\<rparr>"
    if "j < length chunks" for j
  proof -
    have "?s ! j \<in> set ?s" using that len by simp
    then have "?s ! j \<in> set ?pre"
      using sort_reverse_mset [of cit_relevance ?pre] by (metis set_mset_mset)
    from pre_elem [OF this] have "?s ! j = citation_of U grade subject (?p ! j) (chunks ! (?p ! j))"
      using that len by simp
    then show ?thesis using out_nth [OF that, of U grade subject] by simp
  qed
  have stable: "?p ! i < ?p ! j"
    if "i < j" "j < length chunks"
      "cit_relevance (format_citations U chunks grade subject ! i) =
       cit_relevance (format_citations U chunks grade subject ! j)" for i j
  proof -
    have "cit_relevance (?s ! i) = cit_relevance (?s ! j)"
      using that by (simp add: out_nth)
    from stable_order [OF that(1,2) this] show ?thesis using that len by simp
  qed
  show ?thesis
    using out_length out_ids out_sorted perm elems stable
      relevance_order_independent [of chunks' chunks U grade subject]
    by blast
qed

lemma relevance_examples:
  "relevance_of_distance (1 / 4) = 3 / 4" "relevance_of_distance (1 / 8) = 7 / 8"
  by code_simp+

lemma citations_example:
  "map cit_chunk_id (format_citations basic_latin [chunk_a, chunk_b, chunk_c] 6 (str ''science''))
     = [str ''b'', str ''a'', str ''c'']"
  by (simp add: format_citations_def enumerate_map_def sort_reverse_def citation_of_def Let_def
      chunk_a_def chunk_b_def chunk_c_def dict_get_def relevance_examples upt_rec)

theorem citations_ranked_stably_witness:
  "map cit_id (format_citations basic_latin [chunk_a, chunk_b, chunk_c] 6 (str ''science'')) =
     [1, 2, 3] \<and>
   map cit_chunk_id (format_citations basic_latin [chunk_a, chunk_b, chunk_c] 6 (str ''science''))
     = [str ''b'', str ''a'', str ''c'']"
  using citations_ranked_stably [of basic_latin "[chunk_a, chunk_b, chunk_c]" 6 "str ''science''"]
    citations_example
  by (simp add: numeral_3_eq_3)

section \<open>The example pipeline\<close>

lemmas regex_eval = re_sub_def re_findall_def re_sub_from.simps re_findall_from.simps
  source_pattern_def page_pattern_def
  english_word_pattern_def term_pattern_def parenthetical_pattern_def at_boundary_def

lemmas latin_eval = basic_latin_def is_ascii_letter_def is_ascii_upper_def is_ascii_lower_def
  is_ascii_digit_def ascii_lower_def ascii_upper_def

lemma is_hindi_english: "\<not> is_hindi basic_latin (str ''english'')"
  by (simp add: is_hindi_def latin_eval str_def)

lemma example_context:
  "build_context basic_latin [\<lparr>c_chunk_id = None, c_text = Some (str ''Natural numbers are numbers used for counting.''), c_metadata = m, c_distance = None\<rparr>] (str ''english'') =
   Inr (chunk_content False 1 (str ''Natural numbers are numbers used for counting.''))"
  unfolding build_context_def
  by (simp only: is_hindi_english)
     (simp add: truncate_chunk_def chunk_content_def chunk_label_def max_context_chars_def str_def digits.simps)

lemma example_clean:
  "clean_citations basic_latin (strip (str '' Counting numbers [Source 1] are natural. '')) = str ''Counting numbers are natural.''"
  by (simp add: clean_citations_def regex_eval latin_eval str_def strip_def isspace_def collapse_spaces_def split_def)

lemma example_clean2:
  "clean_citations basic_latin (str ''Counting numbers are natural.'') = str ''Counting numbers are natural.''"
  by (simp add: clean_citations_def regex_eval latin_eval str_def strip_def isspace_def collapse_spaces_def split_def)

lemma example_answer:
  "orchestrator_process_query basic_latin (example_orchestrator example_model) (str ''What are natural numbers?'') 6 (Some (str ''mathematics'')) (Some 3) (Some (str ''english'')) =
   Inr \<lparr>qr_answer = str ''Counting numbers are natural.'', qr_language = str ''english'', qr_confidence = 9 / 10,
     qr_citations = [\<lparr>lc_chapter = str ''Numbers'', lc_page = Inr 5\<rparr>], qr_retrieved_chunks = [example_chunk]\<rparr>"
  by (simp add: orchestrator_process_query_def example_orchestrator_def example_chunk_def or_else_def
     search_query_of_def isascii_def orchestrator_generate_answer_def mistral_generate_answer_def
     build_mistral_prompt_def example_context generate_body_def example_model_def verify_hindi_def
     is_hindi_english example_clean example_clean2 replace_english_terms_def dict_get_def Let_def)

lemma example_api:
  "api_process_query basic_latin 40 (Some (example_orchestrator example_model)) example_request =
   Inr \<lparr>ar_answer = str ''Counting numbers are natural.'',
        ar_metadata =
          \<lparr>md_grade = 6, md_subject = str ''mathematics'', md_language = str ''english'',
           md_query_language = str ''english'', md_model = model_name, md_tokens_used = 512,
           md_confidence = 9 / 10, md_chunks_retrieved = 1, md_processing_time_ms = 40\<rparr>,
        ar_citations = format_citations basic_latin [example_chunk] 6 (str ''mathematics''),
        ar_source_chunks = format_source_chunks [example_chunk]\<rparr>"
proof -
  have lang: "or_else (Some (str ''english'')) (str ''english'') = str ''english''"
    by (simp add: or_else_def str_def)
  have q: "isascii (str ''What are natural numbers?'')"
    by (simp add: isascii_def str_def)
  have t: "reported_tokens (llm_service (example_orchestrator example_model)) = 512"
    by (simp add: reported_tokens_def example_orchestrator_def MistralConfig_def)
  show ?thesis
    unfolding api_process_query_def process_query_body_def example_request_def
    by (simp add: lang adjusted_top_k_def is_hindi_english example_answer Let_def
        detect_query_language_def q t)
qed

section \<open>Confidence and token accounting\<close>

text \<open>
  C9. Whenever \<open>process_query\<close> of the orchestrator returns a response, its confidence
  is the constant 0.9, whatever the query, the retrieved chunks, their distances and the
  generated answer; the request surface reports the same value.
\<close>

theorem confidence_constant:
  "(orchestrator_process_query U self query grade subject top_k language = Inr response \<longrightarrow>
      qr_confidence response = 9 / 10) \<and>
   (api_process_query U elapsed_ms (Some self) request = Inr served \<longrightarrow>
      md_confidence (ar_metadata served) = 9 / 10)"
proof -
  have a: "qr_confidence r = 9 / 10"
    if "orchestrator_process_query U self q g s k l = Inr r" for q g s k l r
    using that
    by (auto simp: orchestrator_process_query_def Let_def split: sum.splits)
  have b: "md_confidence (ar_metadata served) = 9 / 10"
    if "api_process_query U elapsed_ms (Some self) request = Inr served"
    using that a
    by (auto simp: api_process_query_def process_query_body_def Let_def split: sum.splits)
  from a b show ?thesis by blast
qed

theorem confidence_constant_witness:
  "\<exists>response served.
     orchestrator_process_query basic_latin (example_orchestrator example_model)
       (str ''What are natural numbers?'') 6 (Some (str ''mathematics'')) (Some 3)
       (Some (str ''english'')) = Inr response \<and>
     qr_confidence response = 9 / 10 \<and>
     api_process_query basic_latin 40 (Some (example_orchestrator example_model)) example_request
       = Inr served \<and>
     md_confidence (ar_metadata served) = 9 / 10"
  using confidence_constant [of basic_latin "example_orchestrator example_model"
      "str ''What are natural numbers?''" 6 "Some (str ''mathematics'')" "Some 3"
      "Some (str ''english'')" _ 40 example_request] example_answer example_api
  by blast

text \<open>
  C10 (as amended). In a successful response of the request surface, \<open>tokens_used\<close> is
  the \<open>max_tokens\<close> of the service's configuration (512 by default, and 512 when there
  is no service). It is read from the configuration and not from the generation call:
  replacing the model by any other, whatever completion-token count it reports, leaves
  the field unchanged. It equals the actual count only when the call consumed exactly
  \<open>max_tokens\<close> tokens.
\<close>

theorem tokens_used_is_limit:
  "(api_process_query U elapsed_ms (Some self) request = Inr served \<longrightarrow>
      md_tokens_used (ar_metadata served) =
        (case llm_service self of None \<Rightarrow> 512 | Some svc \<Rightarrow> cfg_max_tokens (svc_config svc))) \<and>
   (api_process_query U elapsed_ms (Some self) request = Inr served \<and>
    llm_service self = Some svc \<and>
    api_process_query U elapsed_ms
      (Some (self\<lparr>llm_service := Some (svc\<lparr>svc_model := other_model\<rparr>)\<rparr>)) request = Inr served'
    \<longrightarrow> md_tokens_used (ar_metadata served') = md_tokens_used (ar_metadata served)) \<and>
   cfg_max_tokens MistralConfig = 512"
proof -
  have a: "md_tokens_used (ar_metadata r) = reported_tokens (llm_service orch)"
    if "api_process_query U elapsed_ms (Some orch) request = Inr r" for orch r
    using that
    by (auto simp: api_process_query_def process_query_body_def Let_def split: sum.splits)
  have b: "reported_tokens (Some (svc\<lparr>svc_model := other_model\<rparr>)) = reported_tokens (Some svc)"
    by (simp add: reported_tokens_def)
  have c: "md_tokens_used (ar_metadata served') = md_tokens_used (ar_metadata served)"
    if "api_process_query U elapsed_ms (Some self) request = Inr served"
       "llm_service self = Some svc"
       "api_process_query U elapsed_ms
          (Some (self\<lparr>llm_service := Some (svc\<lparr>svc_model := other_model\<rparr>)\<rparr>)) request = Inr served'"
    using a [OF that(1)] a [OF that(3)] that(2) b by simp
  have d: "cfg_max_tokens MistralConfig = 512" by (simp add: MistralConfig_def)
  from a [of self served] c d show ?thesis
    by (auto simp: reported_tokens_def)
qed


lemma example_adapter:
  "mistral_generate_answer basic_latin \<lparr>svc_config = MistralConfig, svc_model = example_model\<rparr>
     (str ''What are natural numbers?'') [text_chunk (str ''Natural numbers are numbers used for counting.'')]
     6 (str ''english'') (str ''mathematics'') None =
   Inr \<lparr>g_answer = str ''Counting numbers are natural.'', g_tokens_used = 12,
        g_model = model_name, g_success = True, g_error = None\<rparr>"
  by (simp add: mistral_generate_answer_def build_mistral_prompt_def text_chunk_def example_context
      generate_body_def example_model_def verify_hindi_def is_hindi_english example_clean Let_def)

text \<open>
  The example model reports 12 completion tokens, which the adapter passes on; the
  response of the request surface reports 512.
\<close>

theorem tokens_used_is_limit_witness:
  "\<exists>result served.
     mistral_generate_answer basic_latin \<lparr>svc_config = MistralConfig, svc_model = example_model\<rparr>
       (str ''What are natural numbers?'')
       [text_chunk (str ''Natural numbers are numbers used for counting.'')]
       6 (str ''english'') (str ''mathematics'') None = Inr result \<and>
     g_tokens_used result = 12 \<and>
     api_process_query basic_latin 40 (Some (example_orchestrator example_model)) example_request
       = Inr served \<and>
     md_tokens_used (ar_metadata served) = 512"
  using tokens_used_is_limit [of basic_latin 40 "example_orchestrator example_model"
      example_request] example_api example_adapter
  by (auto simp: example_orchestrator_def MistralConfig_def)

text \<open>
  The claim as stated fails when the generation stops at the limit: the model reports 512
  completion tokens, the adapter passes 512 on, and the response reports 512, which is
  the actual count.
\<close>

lemma limit_answer:
  "orchestrator_process_query basic_latin (example_orchestrator limit_model)
     (str ''What are natural numbers?'') 6 (Some (str ''mathematics'')) (Some 3)
     (Some (str ''english'')) =
   Inr \<lparr>qr_answer = str ''Counting numbers are natural.'', qr_language = str ''english'',
        qr_confidence = 9 / 10,
        qr_citations = [\<lparr>lc_chapter = str ''Numbers'', lc_page = Inr 5\<rparr>],
        qr_retrieved_chunks = [example_chunk]\<rparr>"
  by (simp add: orchestrator_process_query_def example_orchestrator_def example_chunk_def or_else_def
     search_query_of_def isascii_def orchestrator_generate_answer_def mistral_generate_answer_def
     build_mistral_prompt_def example_context generate_body_def limit_model_def verify_hindi_def
     is_hindi_english example_clean example_clean2 replace_english_terms_def dict_get_def Let_def)

theorem tokens_used_actual_counterexample:
  "mistral_generate_answer basic_latin \<lparr>svc_config = MistralConfig, svc_model = limit_model\<rparr>
     (str ''What are natural numbers?'')
     [text_chunk (str ''Natural numbers are numbers used for counting.'')]
     6 (str ''english'') (str ''mathematics'') None =
   Inr \<lparr>g_answer = str ''Counting numbers are natural.'', g_tokens_used = 512,
        g_model = model_name, g_success = True, g_error = None\<rparr> \<and>
   api_process_query basic_latin 40 (Some (example_orchestrator limit_model)) example_request =
   Inr \<lparr>ar_answer = str ''Counting numbers are natural.'',
        ar_metadata =
          \<lparr>md_grade = 6, md_subject = str ''mathematics'', md_language = str ''english'',
           md_query_language = str ''english'', md_model = model_name, md_tokens_used = 512,
           md_confidence = 9 / 10, md_chunks_retrieved = 1, md_processing_time_ms = 40\<rparr>,
        ar_citations = format_citations basic_latin [example_chunk] 6 (str ''mathematics''),
        ar_source_chunks = format_source_chunks [example_chunk]\<rparr>"
proof -
  have adapter:
    "mistral_generate_answer basic_latin \<lparr>svc_config = MistralConfig, svc_model = limit_model\<rparr>
       (str ''What are natural numbers?'')
       [text_chunk (str ''Natural numbers are numbers used for counting.'')]
       6 (str ''english'') (str ''mathematics'') None =
     Inr \<lparr>g_answer = str ''Counting numbers are natural.'', g_tokens_used = 512,
          g_model = model_name, g_success = True, g_error = None\<rparr>"
    by (simp add: mistral_generate_answer_def build_mistral_prompt_def text_chunk_def
        example_context generate_body_def limit_model_def verify_hindi_def is_hindi_english
        example_clean Let_def)
  have lang: "or_else (Some (str ''english'')) (str ''english'') = str ''english''"
    by (simp add: or_else_def str_def)
  have q: "isascii (str ''What are natural numbers?'')"
    by (simp add: isascii_def str_def)
  have t: "reported_tokens (llm_service (example_orchestrator limit_model)) = 512"
    by (simp add: reported_tokens_def example_orchestrator_def MistralConfig_def)
  have api:
    "api_process_query basic_latin 40 (Some (example_orchestrator limit_model)) example_request =
     Inr \<lparr>ar_answer = str ''Counting numbers are natural.'',
          ar_metadata =
            \<lparr>md_grade = 6, md_subject = str ''mathematics'', md_language = str ''english'',
             md_query_language = str ''english'', md_model = model_name, md_tokens_used = 512,
             md_confidence = 9 / 10, md_chunks_retrieved = 1, md_processing_time_ms = 40\<rparr>,
          ar_citations = format_citations basic_latin [example_chunk] 6 (str ''mathematics''),
          ar_source_chunks = format_source_chunks [example_chunk]\<rparr>"
    unfolding api_process_query_def process_query_body_def example_request_def
    by (simp add: lang adjusted_top_k_def is_hindi_english limit_answer Let_def
        detect_query_language_def q t)
  from adapter api show ?thesis by (rule conjI)
qed

section \<open>Failures of generation\<close>

lemma build_context_total:
  assumes "map c_text context_chunks = map Some ts"
  shows "\<exists>context_text. build_context U context_chunks language = Inr context_text"
  using context_loop_prefix [OF assms, of 0 "is_hindi U language" 1 "[]"]
  by (auto simp: build_context_def)

lemma build_mistral_prompt_total:
  assumes "map c_text context_chunks = map Some ts"
  shows "\<exists>prompt. build_mistral_prompt U query context_chunks grade language subject
                    hindi_terms = Inr prompt"
  using build_context_total [OF assms, of U language]
  by (auto simp: build_mistral_prompt_def Let_def)

text \<open>
  C5 (as amended). When every context chunk has a text, \<open>generate_answer\<close> of the
  adapter returns a result dictionary and does not raise. If the model call raises, the
  result has \<open>success = False\<close> and the error detail \<open>str(e)\<close>; every unsuccessful
  result carries the fixed error text, no tokens and an error detail, and the orchestrator
  then answers with the fixed degraded text.
\<close>

theorem generation_failure_structured:
  assumes "map c_text context_chunks = map Some ts"
  shows "\<exists>prompt result.
     build_mistral_prompt U query context_chunks grade language subject hindi_terms
       = Inr prompt \<and>
     mistral_generate_answer U svc query context_chunks grade language subject hindi_terms
       = Inr result \<and>
     (\<forall>e. svc_model svc prompt (sampling_args (svc_config svc)) = Inl e \<longrightarrow>
          \<not> g_success result \<and> g_error result = Some (error_str e)) \<and>
     (\<not> g_success result \<longrightarrow>
        g_answer result = str ''Error: Could not generate response'' \<and>
        g_tokens_used result = 0 \<and> g_error result \<noteq> None \<and>
        orchestrator_generate_answer U (Some svc) query context_chunks grade subject language
          hindi_terms = Inr (str ''Error: Could not generate response''))"
proof -
  from build_mistral_prompt_total [OF assms] obtain prompt where
    p: "build_mistral_prompt U query context_chunks grade language subject hindi_terms
        = Inr prompt"
    by blast
  define result where "result =
    (case generate_body U svc prompt language hindi_terms of
       Inr result \<Rightarrow> result
     | Inl e \<Rightarrow> \<lparr>g_answer = str ''Error: Could not generate response'', g_tokens_used = 0,
                g_model = model_name, g_success = False, g_error = Some (error_str e)\<rparr>)"
  have r: "mistral_generate_answer U svc query context_chunks grade language subject
             hindi_terms = Inr result"
    by (simp add: mistral_generate_answer_def p result_def)
  have ok: "g_success x" if "generate_body U svc prompt language hindi_terms = Inr x" for x
    using that
    by (auto simp: generate_body_def split: sum.splits option.splits)
  have raised: "\<not> g_success result \<and> g_error result = Some (error_str e)"
    if "svc_model svc prompt (sampling_args (svc_config svc)) = Inl e" for e
    using that by (simp add: result_def generate_body_def)
  have failed: "g_answer result = str ''Error: Could not generate response'' \<and>
      g_tokens_used result = 0 \<and> g_error result \<noteq> None" if "\<not> g_success result"
    using that ok by (auto simp: result_def split: sum.splits)
  have degraded: "orchestrator_generate_answer U (Some svc) query context_chunks grade subject
      language hindi_terms = Inr (str ''Error: Could not generate response'')"
    if "\<not> g_success result"
    using that by (simp add: orchestrator_generate_answer_def r)
  from p r raised failed degraded show ?thesis by blast
qed

lemma example_failure:
  "mistral_generate_answer basic_latin \<lparr>svc_config = MistralConfig, svc_model = failing_model\<rparr>
     (str ''What are natural numbers?'') [text_chunk (str ''Natural numbers are numbers used for counting.'')]
     6 (str ''english'') (str ''mathematics'') None =
   Inr \<lparr>g_answer = str ''Error: Could not generate response'', g_tokens_used = 0,
        g_model = model_name, g_success = False, g_error = Some (str ''out of memory'')\<rparr>"
  by (simp add: mistral_generate_answer_def build_mistral_prompt_def text_chunk_def example_context
      generate_body_def failing_model_def Let_def)

theorem generation_failure_structured_witness:
  "map c_text [text_chunk (str ''Natural numbers are numbers used for counting.'')] =
     map Some [str ''Natural numbers are numbers used for counting.''] \<and>
   mistral_generate_answer basic_latin \<lparr>svc_config = MistralConfig, svc_model = failing_model\<rparr>
     (str ''What are natural numbers?'')
     [text_chunk (str ''Natural numbers are numbers used for counting.'')]
     6 (str ''english'') (str ''mathematics'') None =
   Inr \<lparr>g_answer = str ''Error: Could not generate response'', g_tokens_used = 0,
        g_model = model_name, g_success = False, g_error = Some (str ''out of memory'')\<rparr> \<and>
   orchestrator_generate_answer basic_latin
     (Some \<lparr>svc_config = MistralConfig, svc_model = failing_model\<rparr>)
     (str ''What are natural numbers?'')
     [text_chunk (str ''Natural numbers are numbers used for counting.'')]
     6 (str ''mathematics'') (str ''english'') None =
   Inr (str ''Error: Could not generate response'')"
proof -
  have h: "map c_text [text_chunk (str ''Natural numbers are numbers used for counting.'')] =
           map Some [str ''Natural numbers are numbers used for counting.'']"
    by (simp add: text_chunk_def)
  from generation_failure_structured [OF h, where U = basic_latin
      and query = "str ''What are natural numbers?''" and grade = 6
      and language = "str ''english''" and subject = "str ''mathematics''"
      and hindi_terms = None
      and svc = "\<lparr>svc_config = MistralConfig, svc_model = failing_model\<rparr>"]
    example_failure h
  show ?thesis by auto
qed

text \<open>
  The claim as stated fails for a chunk dictionary without the key \<open>text\<close>: the prompt
  is built before the \<open>try\<close>, so the \<open>KeyError\<close> leaves \<open>generate_answer\<close>.
\<close>

theorem generation_raises_counterexample:
  "mistral_generate_answer basic_latin \<lparr>svc_config = MistralConfig, svc_model = example_model\<rparr>
     (str ''What are natural numbers?'')
     [\<lparr>c_chunk_id = None, c_text = None, c_metadata = None, c_distance = None\<rparr>]
     6 (str ''english'') (str ''mathematics'') None = Inl (KeyError (str ''text''))"
  by (simp add: mistral_generate_answer_def build_mistral_prompt_def build_context_def Let_def)

section \<open>Query canonicalization\<close>

lemma translate_loop_no_terms:
  "\<forall>t\<in>set g. \<not> contains (fst t) query \<Longrightarrow> translate_loop g query translated = translated"
  by (induction g query translated rule: translate_loop.induct) auto

text \<open>
  C6. A query that contains none of the Hindi glossary terms is returned unchanged by the
  canonicalization, which is therefore idempotent on it, and its search string is the
  query itself. For every query that \<open>process_query\<close> answers, the search string went
  to the embedding model, whose vector went to the index, and the answer was generated
  from the raw query.
\<close>

theorem canonicalization_preserves_query:
  "((\<forall>t\<in>set hindi_to_english. \<not> contains (fst t) query) \<longrightarrow>
      translate_hindi_query query = query \<and>
      translate_hindi_query (translate_hindi_query query) = translate_hindi_query query \<and>
      search_query_of query = query) \<and>
   (orchestrator_process_query U self query grade subject top_k language = Inr response \<longrightarrow>
      (\<exists>query_embedding context_chunks.
         embedding_model self (search_query_of query) = Inr query_embedding \<and>
         vector_store self query_embedding grade subject (str ''english'') top_k =
           Inr (qr_retrieved_chunks response) \<and>
         context_chunks_of (qr_retrieved_chunks response) = Inr context_chunks \<and>
         orchestrator_generate_answer U (llm_service self) query context_chunks grade
           (or_else subject (str ''science'')) (or_else language (str ''english''))
           (if is_hindi U (or_else language (str ''english'')) then Some english_to_hindi
            else None) = Inr (qr_answer response)))"
proof -
  have a: "translate_hindi_query query = query"
    if "\<forall>t\<in>set hindi_to_english. \<not> contains (fst t) query"
    using translate_loop_no_terms [OF that] by (simp add: translate_hindi_query_def)
  have b: "\<exists>query_embedding context_chunks.
         embedding_model self (search_query_of query) = Inr query_embedding \<and>
         vector_store self query_embedding grade subject (str ''english'') top_k =
           Inr (qr_retrieved_chunks response) \<and>
         context_chunks_of (qr_retrieved_chunks response) = Inr context_chunks \<and>
         orchestrator_generate_answer U (llm_service self) query context_chunks grade
           (or_else subject (str ''science'')) (or_else language (str ''english''))
           (if is_hindi U (or_else language (str ''english'')) then Some english_to_hindi
            else None) = Inr (qr_answer response)"
    if "orchestrator_process_query U self query grade subject top_k language = Inr response"
    using that
    by (auto simp: orchestrator_process_query_def Let_def split: sum.splits)
  from a b show ?thesis by (simp add: search_query_of_def)
qed

lemma translate_example:
  "translate_hindi_query
     [2346, 2381, 2352, 2325, 2366, 2358, 32, 2360, 2306, 2358, 2381, 2354, 2375, 2359, 2339, 32,
      2325, 2381, 2351, 2366, 32, 2361, 2376, 63] =
   str ''photosynthesis'' @ [32, 2325, 2381, 2351, 2366, 32, 2361, 2376, 63]"
  by (simp add: translate_hindi_query_def hindi_to_english_def replace_def str_def)

lemma no_terms_example:
  "\<forall>t\<in>set hindi_to_english. \<not> contains (fst t) (str ''What are natural numbers?'')"
  by (simp add: hindi_to_english_def str_def)

theorem canonicalization_preserves_query_witness:
  "list_all (\<lambda>t. \<not> contains (fst t) (str ''What are natural numbers?'')) hindi_to_english \<and>
   translate_hindi_query (str ''What are natural numbers?'') = str ''What are natural numbers?'' \<and>
   search_query_of (str ''What are natural numbers?'') = str ''What are natural numbers?''"
  using canonicalization_preserves_query [of "str ''What are natural numbers?''"]
    no_terms_example
  by (simp add: list_all_iff)

section \<open>The language-purity stages\<close>














subsection \<open>The substitution of the adapter is the whole-word substitution\<close>






subsection \<open>The parenthetical pattern removes the fragments with a letter\<close>










subsection \<open>The four replacements of a term\<close>






subsection \<open>The two stages\<close>


















end
